theory Spec2Isabelle
  imports Main
begin

section \<open>JavaScript values\<close>

text \<open>
  Upstream rows are JSON objects. A JSON value is modelled by \<open>jsval\<close>; numbers are the
  integers (epoch stamps, durations and counters are integral), an object is the list of
  its fields in order, and a missing field reads as \<open>Undefined\<close>.
\<close>

datatype jsval =
    Undefined
  | Null
  | Bool bool
  | Num int
  | Str string
  | Arr "jsval list"
  | Obj "(string \<times> jsval) list"

type_synonym jsobj = "(string \<times> jsval) list"

text \<open>Truthiness of a value, as \<open>!v\<close>, \<open>v && ...\<close> and \<open>v || ...\<close> test it.\<close>

fun truthy :: "jsval \<Rightarrow> bool" where
  "truthy Undefined = False"
| "truthy Null = False"
| "truthy (Bool b) = b"
| "truthy (Num n) = (n \<noteq> 0)"
| "truthy (Str s) = (s \<noteq> [])"
| "truthy (Arr xs) = True"
| "truthy (Obj fs) = True"

text \<open>\<open>v == null\<close>: true of \<open>null\<close> and \<open>undefined\<close> only; \<open>a ?? b\<close> takes \<open>b\<close> then.\<close>

fun nullish :: "jsval \<Rightarrow> bool" where
  "nullish Undefined = True"
| "nullish Null = True"
| "nullish _ = False"

definition coalesce :: "jsval \<Rightarrow> jsval \<Rightarrow> jsval" where
  "coalesce a b = (if nullish a then b else a)"

text \<open>\<open>a || b\<close> on values.\<close>

definition js_or :: "jsval \<Rightarrow> jsval \<Rightarrow> jsval" where
  "js_or a b = (if truthy a then a else b)"

text \<open>Reading a property of an object, \<open>o.k\<close>, and writing one, \<open>o.k = v\<close>.\<close>

definition field :: "jsobj \<Rightarrow> string \<Rightarrow> jsval" where
  "field fs k = (case map_of fs k of None \<Rightarrow> Undefined | Some v \<Rightarrow> v)"

fun set_field :: "string \<Rightarrow> jsval \<Rightarrow> jsobj \<Rightarrow> jsobj" where
  "set_field k v [] = [(k, v)]"
| "set_field k v ((k', v') # fs) =
     (if k' = k then (k, v) # fs else (k', v') # set_field k v fs)"

text \<open>
  Optional chaining \<open>h?.k\<close> on a value: \<open>undefined\<close> for \<open>null\<close> and \<open>undefined\<close>, the
  property for an object; a primitive or an array has none of the properties read here.
\<close>

fun opt_field :: "jsval \<Rightarrow> string \<Rightarrow> jsval" where
  "opt_field (Obj fs) k = field fs k"
| "opt_field _ k = Undefined"

definition starts_with :: "string \<Rightarrow> string \<Rightarrow> bool" where
  "starts_with s p = (take (length p) s = p)"

subsection \<open>Strings of values\<close>

text \<open>An integer in decimal, as it prints in a template string.\<close>

definition digit_char :: "nat \<Rightarrow> char" where
  "digit_char d = ''0123456789'' ! d"

fun show_nat :: "nat \<Rightarrow> string" where
  "show_nat n = (if n < 10 then [digit_char n] else show_nat (n div 10) @ [digit_char (n mod 10)])"

declare show_nat.simps [simp del]

definition show_int :: "int \<Rightarrow> string" where
  "show_int i = (if i < 0 then ''-'' @ show_nat (nat (- i)) else show_nat (nat i))"

text \<open>
  \<open>String(v)\<close> and \<open>v.toString()\<close> for a JSON value: an array joins its elements with
  commas, \<open>null\<close> and \<open>undefined\<close> elements as empty strings; integers print in decimal.
\<close>

fun join_comma :: "string list \<Rightarrow> string" where
  "join_comma [] = ''''"
| "join_comma [s] = s"
| "join_comma (s # t # ss) = s @ '','' @ join_comma (t # ss)"

fun js_to_string :: "jsval \<Rightarrow> string" where
  "js_to_string Undefined = ''undefined''"
| "js_to_string Null = ''null''"
| "js_to_string (Bool b) = (if b then ''true'' else ''false'')"
| "js_to_string (Num n) = show_int n"
| "js_to_string (Str s) = s"
| "js_to_string (Arr xs) = join_comma (map (\<lambda>x. if nullish x then '''' else js_to_string x) xs)"
| "js_to_string (Obj fs) = ''[object Object]''"

section \<open>Country of a phone number (reportFetcher.js, extractCountryFromPhoneNumber)\<close>

text \<open>
  The library call \<open>parsePhoneNumber\<close> is not part of the repository: it is a parameter.
  It throws, returns nothing, or returns a number whose \<open>country\<close> may be absent.
\<close>

datatype parse_result = ParseThrows | ParseNothing | Parsed "string option"

definition countryNames :: "(string \<times> string) list" where
  "countryNames = [
    (''AE'', ''UAE''), (''IN'', ''India''), (''GB'', ''United Kingdom''), (''US'', ''United States''),
    (''CA'', ''Canada''), (''AU'', ''Australia''), (''DE'', ''Germany''), (''FR'', ''France''),
    (''IT'', ''Italy''), (''ES'', ''Spain''), (''NL'', ''Netherlands''), (''BE'', ''Belgium''),
    (''CH'', ''Switzerland''), (''AT'', ''Austria''), (''SE'', ''Sweden''), (''NO'', ''Norway''),
    (''DK'', ''Denmark''), (''FI'', ''Finland''), (''PL'', ''Poland''), (''CZ'', ''Czech Republic''),
    (''HU'', ''Hungary''), (''RO'', ''Romania''), (''BG'', ''Bulgaria''), (''HR'', ''Croatia''),
    (''SI'', ''Slovenia''), (''SK'', ''Slovakia''), (''LT'', ''Lithuania''), (''LV'', ''Latvia''),
    (''EE'', ''Estonia''), (''IE'', ''Ireland''), (''PT'', ''Portugal''), (''GR'', ''Greece''),
    (''CY'', ''Cyprus''), (''MT'', ''Malta''), (''LU'', ''Luxembourg''), (''BR'', ''Brazil''),
    (''MX'', ''Mexico''), (''AR'', ''Argentina''), (''CL'', ''Chile''), (''CO'', ''Colombia''),
    (''PE'', ''Peru''), (''VE'', ''Venezuela''), (''UY'', ''Uruguay''), (''PY'', ''Paraguay''),
    (''BO'', ''Bolivia''), (''EC'', ''Ecuador''), (''CN'', ''China''), (''JP'', ''Japan''),
    (''KR'', ''South Korea''), (''TH'', ''Thailand''), (''VN'', ''Vietnam''), (''MY'', ''Malaysia''),
    (''SG'', ''Singapore''), (''ID'', ''Indonesia''), (''PH'', ''Philippines''), (''TW'', ''Taiwan''),
    (''HK'', ''Hong Kong''), (''MO'', ''Macau''), (''RU'', ''Russia''), (''UA'', ''Ukraine''),
    (''BY'', ''Belarus''), (''KZ'', ''Kazakhstan''), (''UZ'', ''Uzbekistan''), (''KG'', ''Kyrgyzstan''),
    (''TJ'', ''Tajikistan''), (''TM'', ''Turkmenistan''), (''AM'', ''Armenia''), (''AZ'', ''Azerbaijan''),
    (''GE'', ''Georgia''), (''MD'', ''Moldova''), (''EG'', ''Egypt''), (''SA'', ''Saudi Arabia''),
    (''TR'', ''Turkey''), (''IL'', ''Israel''), (''JO'', ''Jordan''), (''LB'', ''Lebanon''),
    (''SY'', ''Syria''), (''IQ'', ''Iraq''), (''IR'', ''Iran''), (''AF'', ''Afghanistan''),
    (''PK'', ''Pakistan''), (''BD'', ''Bangladesh''), (''LK'', ''Sri Lanka''), (''NP'', ''Nepal''),
    (''BT'', ''Bhutan''), (''MV'', ''Maldives''), (''ZA'', ''South Africa''), (''NG'', ''Nigeria''),
    (''KE'', ''Kenya''), (''GH'', ''Ghana''), (''ET'', ''Ethiopia''), (''TZ'', ''Tanzania''),
    (''UG'', ''Uganda''), (''ZW'', ''Zimbabwe''), (''ZM'', ''Zambia''), (''MW'', ''Malawi''),
    (''MZ'', ''Mozambique''), (''BW'', ''Botswana''), (''NA'', ''Namibia''), (''SZ'', ''Eswatini''),
    (''LS'', ''Lesotho'')
  ]"

text \<open>\<open>[^\d+]\<close> removed: the characters kept are the ASCII digits and the plus sign.\<close>

definition digit_or_plus :: "char \<Rightarrow> bool" where
  "digit_or_plus c = (c \<in> set ''0123456789+'')"

text \<open>
  \<open>cleanNumber\<close> as it stands when its length is tested: non-digits other than \<open>+\<close>
  removed, then the leading zeros stripped unless the string starts with \<open>+\<close>.
\<close>

definition cleanNumber :: "string \<Rightarrow> string" where
  "cleanNumber phoneNumber =
     (let c = filter digit_or_plus phoneNumber
      in if starts_with c ''+'' then c else dropWhile (\<lambda>x. x = CHR ''0'') c)"

text \<open>The prefix added before the library call (the last three branches on \<open>cleanNumber\<close>).\<close>

definition plus_prefixed :: "string \<Rightarrow> string" where
  "plus_prefixed c =
     (if starts_with c ''00'' then ''+'' @ drop 2 c
      else if starts_with c ''0'' \<and> length c > 10 then ''+'' @ drop 1 c
      else if \<not> starts_with c ''+'' \<and> length c > 10 then ''+'' @ c
      else c)"

definition country_of_code :: "string \<Rightarrow> string" where
  "country_of_code countryCode =
     (case map_of countryNames countryCode of
        Some n \<Rightarrow> (if n = [] then countryCode else n)
      | None \<Rightarrow> countryCode)"

definition classify :: "(string \<Rightarrow> parse_result) \<Rightarrow> string \<Rightarrow> string" where
  "classify parsePhoneNumber c =
     (if length c \<le> 4 then ''''
      else if starts_with c ''+971'' \<or> starts_with c ''971'' then ''UAE''
      else if starts_with c ''+20'' \<or> starts_with c ''20'' then ''Egypt''
      else if length c = 10 \<and> starts_with c ''9'' then ''India''
      else if length c = 10 \<and> starts_with c ''8'' then ''India''
      else if length c = 10 \<and> starts_with c ''7'' then ''India''
      else if length c = 10 \<and> starts_with c ''6'' then ''India''
      else if length c = 9 \<and> starts_with c ''5'' then ''UAE''
      else if length c = 8 \<and> starts_with c ''5'' then ''UAE''
      else if length c = 7 \<and> starts_with c ''5'' then ''UAE''
      else if length c = 10 \<and> starts_with c ''5'' then ''UAE''
      else if length c = 8 \<and>
              (starts_with c ''4'' \<or> starts_with c ''2'' \<or> starts_with c ''3'' \<or>
               starts_with c ''6'' \<or> starts_with c ''7'') then ''UAE''
      else if (length c = 10 \<or> length c = 11) \<and> starts_with c ''1'' then ''UK''
      else if starts_with c ''44'' \<and> length c \<ge> 10 then ''UK''
      else if length c = 10 \<and> starts_with c ''10'' then ''Egypt''
      else (case parsePhoneNumber (plus_prefixed c) of
              Parsed (Some countryCode) \<Rightarrow>
                (if countryCode = [] then '''' else country_of_code countryCode)
            | _ \<Rightarrow> ''''))"

text \<open>
  The function itself: a value that is falsy or not a string gives the empty string; an
  exception of the library call is caught and gives the empty string too.
\<close>

fun extractCountryFromPhoneNumber :: "(string \<Rightarrow> parse_result) \<Rightarrow> jsval \<Rightarrow> string" where
  "extractCountryFromPhoneNumber parsePhoneNumber (Str s) =
     (if s = [] then '''' else classify parsePhoneNumber (cleanNumber s))"
| "extractCountryFromPhoneNumber parsePhoneNumber _ = ''''"

section \<open>The fetch client (reportFetcher.js, fetchReport)\<close>

subsection \<open>Errors and the upstream\<close>

text \<open>
  What \<open>fetchReport\<close> can throw: the error of a failed request (transport or non-2xx,
  with its message), a \<open>TypeError\<close> or \<open>RangeError\<close> of the code itself, or the unknown
  report type.
\<close>

datatype error = UpstreamError string | TypeError | RangeError | UnknownReport string

type_synonym row = jsobj

text \<open>
  One HTTP exchange. \<open>Fail\<close>: acquiring the token or the GET throws. \<open>Page k rs\<close>: the
  payload, with \<open>k\<close> its \<open>next_start_key\<close> (\<open>Undefined\<close> when absent) and \<open>rs\<close> the
  row array the client reads from it (\<open>data\<close>, the top-level array, or \<open>rows\<close>).
\<close>

datatype response = Fail string | Page jsval "row list"

text \<open>
  The upstream is a script of handlers, one for each request the client makes, in order:
  the handler answers the request from the \<open>start_key\<close> it carries. A client that has
  used the whole script and asks again has no answer: its run is \<open>None\<close>. A client
  that never stops asking therefore has no result on any script.
\<close>

type_synonym upstream = "(jsval \<Rightarrow> response) list"

record params =
  startDate :: "int option"
  endDate :: "int option"
  start_key :: jsval
  maxRows :: "int option"

definition MAX_RETRIES :: nat where
  "MAX_RETRIES = 3"

definition CACHE_TTL :: int where
  "CACHE_TTL = 300000"

definition ENDPOINTS :: "(string \<times> string) list" where
  "ENDPOINTS = [
     (''cdrs'', ''/api/v2/reports/cdrs''),
     (''queueCalls'', ''/api/v2/reports/queues_cdrs''),
     (''queueOutboundCalls'', ''/api/v2/reports/queues_outbound_cdrs''),
     (''campaignsActivity'', ''/api/v2/reports/campaigns/leads/history'')]"

text \<open>
  \<open>ENDPOINTS[report]\<close> is truthy for the four keys of the table and also for the names
  an object literal inherits from \<open>Object.prototype\<close>, whose values are functions (or
  the prototype itself): the guard \<open>!ENDPOINTS[report]\<close> lets those through.
\<close>

definition inherited_keys :: "string list" where
  "inherited_keys = [
     ''constructor'', ''hasOwnProperty'', ''isPrototypeOf'', ''propertyIsEnumerable'',
     ''toLocaleString'', ''toString'', ''valueOf'', ''__proto__'',
     ''__defineGetter__'', ''__defineSetter__'', ''__lookupGetter__'', ''__lookupSetter__'']"

definition has_endpoint :: "string \<Rightarrow> bool" where
  "has_endpoint report =
     (case map_of ENDPOINTS report of
        Some path \<Rightarrow> path \<noteq> []
      | None \<Rightarrow> report \<in> set inherited_keys)"

subsection \<open>The cache key\<close>

text \<open>\<open>startDate = ''\<close> and \<open>endDate = ''\<close> when the parameter is absent.\<close>

definition show_date :: "int option \<Rightarrow> string" where
  "show_date d = (case d of None \<Rightarrow> '''' | Some i \<Rightarrow> show_int i)"

definition makeCacheKey :: "string \<Rightarrow> string \<Rightarrow> params \<Rightarrow> string" where
  "makeCacheKey report tenant ps =
     report @ ''|'' @ tenant @ ''|'' @ show_date (startDate ps) @ ''|'' @ show_date (endDate ps)"

record cache_entry =
  c_expires :: int
  c_data :: "row list"

type_synonym cache = "string \<rightharpoonup> cache_entry"

subsection \<open>Pages and retries\<close>

text \<open>\<open>maxRows ? ... : ...\<close>: an absent limit and the limit 0 are falsy.\<close>

definition limit_given :: "int option \<Rightarrow> bool" where
  "limit_given m = (case m of None \<Rightarrow> False | Some n \<Rightarrow> n \<noteq> 0)"

definition remaining_rows :: "int option \<Rightarrow> row list \<Rightarrow> row list \<Rightarrow> int" where
  "remaining_rows m out records =
     (if limit_given m then the m - int (length out) else int (length records))"

text \<open>
  The exchanges of a call, in order: the \<open>start_key\<close> each request carried and the
  response it got. The loop does not read this; it is kept to state what was requested.
\<close>

type_synonym exchange = "jsval \<times> response"

text \<open>
  How one pass of the \<open>while (true)\<close> loop ends: it breaks with the rows and the paging
  token, a request throws, or the script is used up. Each carries the variables that
  live on (\<open>startKey\<close>, \<open>nextStartKey\<close>), the exchanges so far and the handlers not
  yet used.
\<close>

datatype attempt =
    Broke "row list" jsval "exchange list" upstream
  | Threw string jsval jsval "exchange list" upstream
  | Starved

text \<open>
  The request carries \<open>params\<close> (with the caller's \<open>start_key\<close>, if any), overridden by
  the loop's \<open>startKey\<close> once that is truthy.
\<close>

fun fetch_pages ::
  "int option \<Rightarrow> jsval \<Rightarrow> upstream \<Rightarrow> jsval \<Rightarrow> jsval \<Rightarrow> row list \<Rightarrow> exchange list \<Rightarrow> attempt" where
  "fetch_pages m pkey [] startKey nextStartKey out log = Starved"
| "fetch_pages m pkey (h # hs) startKey nextStartKey out log =
     (let key = (if truthy startKey then startKey else pkey)
      in case h key of
           Fail e \<Rightarrow> Threw e startKey nextStartKey (log @ [(key, Fail e)]) hs
         | Page next_start_key records \<Rightarrow>
             (let nextStartKey' = coalesce next_start_key Null;
                  remaining = remaining_rows m out records;
                  out' = (if remaining > 0 then out @ take (nat remaining) records else out);
                  log' = log @ [(key, Page next_start_key records)]
              in if length out' > 0 then Broke out' nextStartKey' log' hs
                 else if nextStartKey' = Null then Broke out' nextStartKey' log' hs
                 else fetch_pages m pkey hs nextStartKey' nextStartKey' out' log'))"

text \<open>
  The result of the retry loop: the rows and the token, or the error thrown on the last
  attempt; with the delays slept between attempts, in order, and the exchanges.
\<close>

datatype fetched_pages =
    Fetched "row list" jsval "nat list" "exchange list"
  | Raised string "nat list" "exchange list"

function retry_loop ::
  "nat \<Rightarrow> nat \<Rightarrow> int option \<Rightarrow> jsval \<Rightarrow> upstream \<Rightarrow> jsval \<Rightarrow> jsval \<Rightarrow> row list \<Rightarrow> nat list
     \<Rightarrow> exchange list \<Rightarrow> fetched_pages option" where
  "retry_loop attempt delay m pkey script startKey nextStartKey out slept log =
     (if attempt < MAX_RETRIES then
        (case fetch_pages m pkey script startKey nextStartKey out log of
           Starved \<Rightarrow> None
         | Broke out' nextStartKey' log' rest \<Rightarrow> Some (Fetched out' nextStartKey' slept log')
         | Threw err startKey' nextStartKey' log' rest \<Rightarrow>
             (if attempt = MAX_RETRIES - 1 then Some (Raised err slept log')
              else retry_loop (attempt + 1) (delay * 2) m pkey rest startKey' nextStartKey' out
                     (slept @ [delay]) log'))
      else Some (Fetched out nextStartKey slept log))"
  by pat_completeness auto
termination
  by (relation "measure (\<lambda>(attempt, _). MAX_RETRIES - attempt)") auto

declare retry_loop.simps [simp del]

subsection \<open>Post-processing of the fetched rows\<close>

text \<open>
  A \<open>forEach\<close> or \<open>map\<close> whose callback may throw: the first exception ends it.
\<close>

fun mapE :: "('a \<Rightarrow> 'e + 'b) \<Rightarrow> 'a list \<Rightarrow> 'e + 'b list" where
  "mapE f [] = Inr []"
| "mapE f (x # xs) =
     (case f x of
        Inl e \<Rightarrow> Inl e
      | Inr y \<Rightarrow> map_sum id ((#) y) (mapE f xs))"

text \<open>
  The Extension column. \<open>firstAgentHistory.ext\<close> throws when the first entry is \<open>null\<close>.
\<close>

definition extension_of :: "string \<Rightarrow> row \<Rightarrow> error + jsval" where
  "extension_of report record =
     (if report = ''campaignsActivity'' then
        Inr (js_or (field record ''agent_extension'') (Str ''''))
      else if report = ''queueCalls'' \<or> report = ''queueOutboundCalls'' then
        (case field record ''agent_history'' of
           Arr (firstAgentHistory # _) \<Rightarrow>
             (if nullish firstAgentHistory then Inl TypeError
              else Inr (js_or (opt_field firstAgentHistory ''ext'') (Str '''')))
         | _ \<Rightarrow> Inr (Str ''''))
      else Inr (Str ''''))"

definition add_extension :: "string \<Rightarrow> row \<Rightarrow> error + row" where
  "add_extension report record =
     (case extension_of report record of
        Inl e \<Rightarrow> Inl e
      | Inr extension \<Rightarrow> Inr (set_field ''Extension'' extension record))"

text \<open>The Country column; \<open>a || b\<close> on the strings the country derivation returns.\<close>

definition str_or :: "string \<Rightarrow> string \<Rightarrow> string" where
  "str_or a b = (if a \<noteq> [] then a else b)"

definition country_of :: "(string \<Rightarrow> parse_result) \<Rightarrow> string \<Rightarrow> row \<Rightarrow> string" where
  "country_of pp report record =
     (if report = ''campaignsActivity'' then
        str_or (extractCountryFromPhoneNumber pp (field record ''lead_number'')) ''''
      else if report = ''queueCalls'' then
        str_or (extractCountryFromPhoneNumber pp (field record ''caller_id_number'')) ''''
      else if report = ''queueOutboundCalls'' then
        (let phoneNumber =
               js_or (js_or (field record ''to'') (field record ''destination''))
                 (field record ''callee_id_number'')
         in str_or (extractCountryFromPhoneNumber pp phoneNumber) '''')
      else if report = ''cdrs'' then
        str_or (str_or (extractCountryFromPhoneNumber pp (field record ''caller_id_number''))
                  (extractCountryFromPhoneNumber pp (field record ''callee_id_number''))) ''''
      else '''')"

definition add_country :: "(string \<Rightarrow> parse_result) \<Rightarrow> string \<Rightarrow> row \<Rightarrow> row" where
  "add_country pp report record = set_field ''Country'' (Str (country_of pp report record)) record"

text \<open>
  The derived durations. The subtraction of two JSON values, with the coercions of the
  language, is the parameter \<open>sub\<close>.
\<close>

definition derive_durations :: "(jsval \<Rightarrow> jsval \<Rightarrow> jsval) \<Rightarrow> row \<Rightarrow> row" where
  "derive_durations sub record =
     (let record1 =
            (if \<not> truthy (field record ''talked_duration'') \<and> truthy (field record ''hangup_time'')
                \<and> truthy (field record ''answered_time'')
             then set_field ''talked_duration''
                    (sub (field record ''hangup_time'') (field record ''answered_time'')) record
             else record)
      in if \<not> truthy (field record1 ''wait_duration'') \<and> truthy (field record1 ''called_time'') then
           (if truthy (field record1 ''answered_time'') then
              set_field ''wait_duration''
                (sub (field record1 ''answered_time'') (field record1 ''called_time'')) record1
            else if truthy (field record1 ''hangup_time'') then
              set_field ''wait_duration''
                (sub (field record1 ''hangup_time'') (field record1 ''called_time'')) record1
            else record1)
         else record1)"

text \<open>
  Membership in the \<open>Set\<close> of seen call ids: primitives are compared by value; two arrays
  or objects read from JSON are never the same reference.
\<close>

fun primitive :: "jsval \<Rightarrow> bool" where
  "primitive (Arr xs) = False"
| "primitive (Obj fs) = False"
| "primitive _ = True"

definition same_value :: "jsval \<Rightarrow> jsval \<Rightarrow> bool" where
  "same_value a b = (primitive a \<and> a = b)"

definition seen_has :: "jsval list \<Rightarrow> jsval \<Rightarrow> bool" where
  "seen_has seen v = list_ex (\<lambda>w. same_value w v) seen"

text \<open>The rows kept for inbound queue calls: the first of each \<open>call_id\<close>.\<close>

fun firstRows :: "jsval list \<Rightarrow> row list \<Rightarrow> row list" where
  "firstRows seen [] = []"
| "firstRows seen (rec # out) =
     (if \<not> truthy (field rec ''call_id'') then rec # firstRows seen out
      else if \<not> seen_has seen (field rec ''call_id'') then
        rec # firstRows (seen @ [field rec ''call_id'']) out
      else firstRows seen out)"

text \<open>\<open>Object.keys(h).length === 0\<close> for a truthy \<open>h\<close>.\<close>

fun no_own_keys :: "jsval \<Rightarrow> bool" where
  "no_own_keys (Obj fs) = (fs = [])"
| "no_own_keys (Arr xs) = (xs = [])"
| "no_own_keys (Str s) = (s = [])"
| "no_own_keys _ = True"

fun is_substring :: "string \<Rightarrow> string \<Rightarrow> bool" where
  "is_substring p [] = (p = [])"
| "is_substring p (c # s) = (starts_with (c # s) p \<or> is_substring p s)"

text \<open>
  \<open>a?.includes("transfer")\<close> as a condition: nothing for a nullish \<open>a\<close>, the substring
  test of a string, the membership test of an array; any other value has no
  \<open>includes\<close> and the call throws.
\<close>

fun includes_transfer :: "jsval \<Rightarrow> error + bool" where
  "includes_transfer Undefined = Inr False"
| "includes_transfer Null = Inr False"
| "includes_transfer (Str s) = Inr (is_substring ''transfer'' s)"
| "includes_transfer (Arr xs) = Inr (Str ''transfer'' \<in> set xs)"
| "includes_transfer _ = Inl TypeError"

text \<open>\<open>!h?.answered_time && !h?.agent_action?.includes("transfer")\<close>, left to right.\<close>

definition lacks_answer :: "jsval \<Rightarrow> error + bool" where
  "lacks_answer h =
     (if truthy (opt_field h ''answered_time'') then Inr False
      else (case includes_transfer (opt_field h ''agent_action'') of
              Inl e \<Rightarrow> Inl e
            | Inr b \<Rightarrow> Inr (\<not> b)))"

text \<open>\<open>Array.prototype.every\<close> with a test that may throw: it stops at the first false.\<close>

fun everyE :: "('a \<Rightarrow> error + bool) \<Rightarrow> 'a list \<Rightarrow> error + bool" where
  "everyE p [] = Inr True"
| "everyE p (x # xs) =
     (case p x of
        Inl e \<Rightarrow> Inl e
      | Inr b \<Rightarrow> (if b then everyE p xs else Inr False))"

definition histMissing :: "jsval \<Rightarrow> bool" where
  "histMissing hist =
     (case hist of
        Undefined \<Rightarrow> True
      | Null \<Rightarrow> True
      | Arr hs \<Rightarrow> hs = [] \<or> list_all (\<lambda>h. truthy h \<and> no_own_keys h) hs
      | _ \<Rightarrow> False)"

definition histNoAnswer :: "jsval \<Rightarrow> error + bool" where
  "histNoAnswer hist =
     (case hist of
        Arr hs \<Rightarrow> (if hs = [] then Inr False else everyE lacks_answer hs)
      | _ \<Rightarrow> Inr False)"

definition isAbandoned :: "row \<Rightarrow> error + bool" where
  "isAbandoned r =
     (case histNoAnswer (field r ''agent_history'') of
        Inl e \<Rightarrow> Inl e
      | Inr na \<Rightarrow>
          Inr (histMissing (field r ''agent_history'') \<or> \<not> truthy (field r ''answered_time'') \<or> na))"

definition derive_abandoned :: "row \<Rightarrow> error + row" where
  "derive_abandoned r =
     (case isAbandoned r of
        Inl e \<Rightarrow> Inl e
      | Inr b \<Rightarrow> Inr (set_field ''abandoned'' (Str (if b then ''YES'' else ''NO'')) r))"

text \<open>Outbound rows keep the first element of \<open>queue_history\<close> only.\<close>

definition first_queue_history :: "row \<Rightarrow> row" where
  "first_queue_history rec =
     (case field rec ''queue_history'' of
        Arr (q # q' # qs) \<Rightarrow> set_field ''queue_history'' (Arr [q]) rec
      | _ \<Rightarrow> rec)"

text \<open>
  Everything after the retry loop, in the order of the source: the Extension pass, the
  Country pass, the durations of the two queue reports, then what each report adds.
\<close>

definition annotate ::
  "(string \<Rightarrow> parse_result) \<Rightarrow> (jsval \<Rightarrow> jsval \<Rightarrow> jsval) \<Rightarrow> string \<Rightarrow> row list \<Rightarrow> error + row list" where
  "annotate pp sub report out =
     (case mapE (add_extension report) out of
        Inl e \<Rightarrow> Inl e
      | Inr out1 \<Rightarrow>
          (let out2 = map (add_country pp report) out1
           in Inr (if report = ''queueCalls'' \<or> report = ''queueOutboundCalls''
                   then map (derive_durations sub) out2 else out2)))"

definition postprocess ::
  "(string \<Rightarrow> parse_result) \<Rightarrow> (jsval \<Rightarrow> jsval \<Rightarrow> jsval) \<Rightarrow> string \<Rightarrow> row list \<Rightarrow> error + row list" where
  "postprocess pp sub report out =
     (case annotate pp sub report out of
        Inl e \<Rightarrow> Inl e
      | Inr out3 \<Rightarrow>
          (if report = ''queueCalls'' then mapE derive_abandoned (firstRows [] out3)
           else if report = ''queueOutboundCalls'' then Inr (map first_queue_history out3)
           else Inr out3))"

subsection \<open>fetchReport\<close>

text \<open>
  What the promise resolves to: the bare array of a cache hit, or the object
  \<open>{rows, next}\<close> of a fetch.
\<close>

datatype fetched = Rows "row list" | RowsNext "row list" jsval

record run =
  r_result :: "error + fetched"
  r_cache :: cache
  r_slept :: "nat list"
  r_log :: "exchange list"

text \<open>A cache entry answers a lookup while \<open>Date.now() < cached.expires\<close>.\<close>

definition cache_fresh :: "cache \<Rightarrow> string \<Rightarrow> int \<Rightarrow> bool" where
  "cache_fresh reportCache cacheKey now =
     (case reportCache cacheKey of None \<Rightarrow> False | Some cached \<Rightarrow> now < c_expires cached)"

text \<open>
  \<open>now\<close> is the clock at the cache lookup and \<open>now'\<close> the clock when the result is
  stored. The URL read from \<open>ENDPOINTS[report]\<close> plays no part: the upstream is the
  script, whatever the URL.
\<close>

definition fetchReport ::
  "(string \<Rightarrow> parse_result) \<Rightarrow> (jsval \<Rightarrow> jsval \<Rightarrow> jsval) \<Rightarrow> cache \<Rightarrow> int \<Rightarrow> int \<Rightarrow>
     string \<Rightarrow> string \<Rightarrow> params \<Rightarrow> upstream \<Rightarrow> run option" where
  "fetchReport pp sub reportCache now now' report tenant ps script =
     (if \<not> has_endpoint report then
        Some \<lparr>r_result = Inl (UnknownReport report), r_cache = reportCache, r_slept = [], r_log = []\<rparr>
      else
        (let cacheKey = makeCacheKey report tenant ps
         in if cache_fresh reportCache cacheKey now then
              Some \<lparr>r_result = Inr (Rows (c_data (the (reportCache cacheKey)))),
                    r_cache = reportCache, r_slept = [], r_log = []\<rparr>
            else
              (case retry_loop 0 1000 (maxRows ps) (start_key ps) script Undefined Null [] [] [] of
                 None \<Rightarrow> None
               | Some (Raised err slept log) \<Rightarrow>
                   Some \<lparr>r_result = Inl (UpstreamError err), r_cache = reportCache,
                         r_slept = slept, r_log = log\<rparr>
               | Some (Fetched out nextStartKey slept log) \<Rightarrow>
                   (case postprocess pp sub report out of
                      Inl e \<Rightarrow>
                        Some \<lparr>r_result = Inl e, r_cache = reportCache, r_slept = slept, r_log = log\<rparr>
                    | Inr rows \<Rightarrow>
                        Some \<lparr>r_result = Inr (RowsNext rows nextStartKey),
                              r_cache = reportCache(cacheKey \<mapsto>
                                \<lparr>c_expires = now' + CACHE_TTL, c_data = rows\<rparr>),
                              r_slept = slept, r_log = log\<rparr>))))"

section \<open>The report endpoint (server.js, GET /api/reports/:type)\<close>

text \<open>
  Library calls the handler makes, as parameters: \<open>Date.parse\<close> (nothing for \<open>NaN\<close>),
  \<open>JSON.parse\<close> (nothing when it throws), the number a non-number value coerces to
  (nothing for \<open>NaN\<close>) and \<open>toISOString\<close> of a time in milliseconds (nothing when
  the date is invalid and the call throws).
\<close>

record platform =
  date_parse :: "string \<Rightarrow> int option"
  json_parse :: "string \<Rightarrow> jsval option"
  to_number :: "jsval \<Rightarrow> int option"
  to_iso :: "int \<Rightarrow> string option"








text \<open>
  \<open>const ms = v > 10_000_000_000 ? v : v * 1000; new Date(ms).toISOString()\<close> for a
  truthy \<open>v\<close>. A number is compared and multiplied as it is. Any other value is compared
  through the number it coerces to: when that exceeds 1e10 the value itself goes to
  \<open>new Date\<close>, which parses its string; otherwise the product does (\<open>NaN\<close> when the
  value is no number). An invalid date makes \<open>toISOString\<close> throw a \<open>RangeError\<close>.
\<close>

definition attempt_iso :: "platform \<Rightarrow> jsval \<Rightarrow> error + jsval" where
  "attempt_iso lib last_attempt =
     (case (case last_attempt of
              Num n \<Rightarrow> Some (if n > 10000000000 then n else n * 1000)
            | v \<Rightarrow>
                (case to_number lib v of
                   None \<Rightarrow> None
                 | Some n \<Rightarrow>
                     (if n > 10000000000 then date_parse lib (js_to_string v)
                      else Some (n * 1000)))) of
        None \<Rightarrow> Inl RangeError
      | Some ms \<Rightarrow>
          (case to_iso lib ms of
             None \<Rightarrow> Inl RangeError
           | Some s \<Rightarrow> Inr (Str s)))"





section \<open>The merge engine (script.js)\<close>

subsection \<open>Records and their event time\<close>

text \<open>The four sources, in the order the engine visits them: in, out, camp, cdr.\<close>

datatype source = In | Out | Camp | Cdr

definition sources :: "source list" where
  "sources = [In, Out, Camp, Cdr]"

text \<open>
  A normalized record. Of its columns the engine reads \<open>Call ID\<close> and \<open>Called Time\<close>;
  \<open>Type\<close> and \<open>Abandoned\<close> are kept with them. The other columns are copies of row
  fields or HTML rendered from them, which nothing below reads: their values are left
  out, but not the exceptions that rendering them throws.
\<close>

record crecord =
  col_Type :: string
  col_CallID :: jsval
  col_CalledTime :: jsval
  col_Abandoned :: string

text \<open>
  \<open>toEpoch\<close>: 0 for a falsy value; a number below 1e11 is seconds; anything else is
  parsed as a date, 0 when that fails.
\<close>

definition toEpoch :: "platform \<Rightarrow> crecord \<Rightarrow> int" where
  "toEpoch lib rec =
     (let v = col_CalledTime rec
      in if \<not> truthy v then 0
         else (case v of
                 Num n \<Rightarrow> (if n < 100000000000 then n * 1000 else n)
               | _ \<Rightarrow> (case date_parse lib (js_to_string v) of None \<Rightarrow> 0 | Some parsed \<Rightarrow> parsed)))"

text \<open>\<open>list.sort((a, b) => toEpoch(b) - toEpoch(a))\<close>: a stable sort, newest first.\<close>

definition sort_newest :: "platform \<Rightarrow> crecord list \<Rightarrow> crecord list" where
  "sort_newest lib list = sort_key (\<lambda>rec. - toEpoch lib rec) list"

subsection \<open>computeAbandoned\<close>

text \<open>The \<open>forEach\<close> over the history: reading \<open>h.connected\<close> of a \<open>null\<close> entry throws.\<close>

fun scan_history :: "jsval list \<Rightarrow> bool \<Rightarrow> bool \<Rightarrow> error + bool \<times> bool" where
  "scan_history [] connected star7 = Inr (connected, star7)"
| "scan_history (h # hs) connected star7 =
     (if nullish h then Inl TypeError
      else scan_history hs
             (connected \<or> truthy (opt_field h ''connected''))
             (star7 \<or> is_substring ''*7'' (js_to_string (js_or (opt_field h ''event'') (Str '''')))))"

definition computeAbandoned :: "platform \<Rightarrow> row \<Rightarrow> error + string" where
  "computeAbandoned lib row =
     (let history =
            (case field row ''agent_history'' of
               Str s \<Rightarrow> (case json_parse lib s of None \<Rightarrow> Arr [] | Some v \<Rightarrow> v)
             | h \<Rightarrow> h)
      in case history of
           Arr hs \<Rightarrow>
             (if hs = [] then Inr ''YES''
              else (case scan_history hs False False of
                      Inl e \<Rightarrow> Inl e
                    | Inr (connected, star7) \<Rightarrow>
                        Inr (if connected then ''NO''
                             else if \<not> connected \<and> \<not> star7 then ''YES'' else ''NO'')))
         | _ \<Rightarrow> Inr ''YES'')"

subsection \<open>The history columns\<close>

text \<open>
  \<open>if (h.last_attempt) { ... new Date(ms).toISOString() }\<close>: the stamp of a history
  entry is rendered when it is truthy, and that throws when the date is invalid.
\<close>

definition stamp_fails :: "platform \<Rightarrow> jsval \<Rightarrow> bool" where
  "stamp_fails lib v = (truthy v \<and> (case attempt_iso lib v of Inl e \<Rightarrow> True | Inr s \<Rightarrow> False))"

text \<open>
  What \<open>historyToHtml\<close> and \<open>leadHistoryToHtml\<close> throw, if anything. Both sort a copy of
  the array by \<open>last_attempt\<close> and then render the entries in that order. The comparator
  reads \<open>a.last_attempt\<close>: it throws on a \<open>null\<close> entry as soon as there are two entries
  to compare, and a single \<open>null\<close> entry throws when it is rendered. \<open>undefined\<close>
  entries are not shown to the comparator and come last, behind the entries whose stamp
  may be invalid. Nothing is thrown for a value that is not an array, nor for \<open>[]\<close>.
\<close>

definition sorted_history_error :: "platform \<Rightarrow> jsval \<Rightarrow> error option" where
  "sorted_history_error lib history =
     (case history of
        Arr hs \<Rightarrow>
          (if list_ex (\<lambda>h. h = Null) hs then Some TypeError
           else if list_ex (\<lambda>h. stamp_fails lib (opt_field h ''last_attempt'')) hs
             then Some RangeError
           else if list_ex (\<lambda>h. h = Undefined) hs then Some TypeError
           else None)
      | _ \<Rightarrow> None)"

text \<open>
  What \<open>queueHistoryToHtml\<close> throws: it renders the entries in order, reading \<open>h.ts\<close> of
  each.
\<close>

fun queue_entries_error :: "platform \<Rightarrow> jsval list \<Rightarrow> error option" where
  "queue_entries_error lib [] = None"
| "queue_entries_error lib (h # hs) =
     (if nullish h then Some TypeError
      else if stamp_fails lib (opt_field h ''ts'') then Some RangeError
      else queue_entries_error lib hs)"

definition queue_history_error :: "platform \<Rightarrow> jsval \<Rightarrow> error option" where
  "queue_history_error lib history =
     (case history of Arr hs \<Rightarrow> queue_entries_error lib hs | _ \<Rightarrow> None)"

text \<open>
  The history columns of a row, in the order the object literal evaluates them: for a
  campaign row \<open>historyToHtml(row.agent_history ?? [])\<close> then
  \<open>leadHistoryToHtml(row.lead_history ?? [])\<close>; for a queue row
  \<open>queueHistoryToHtml(row.queue_history ?? [])\<close> then
  \<open>historyToHtml(row.agent_history ?? [])\<close>; a CDR has none.
\<close>

definition first_error :: "error option \<Rightarrow> error option \<Rightarrow> error option" where
  "first_error a b = (case a of Some e \<Rightarrow> Some e | None \<Rightarrow> b)"

definition history_columns_error :: "platform \<Rightarrow> source \<Rightarrow> row \<Rightarrow> error option" where
  "history_columns_error lib source row =
     (case source of
        Camp \<Rightarrow>
          first_error (sorted_history_error lib (coalesce (field row ''agent_history'') (Arr [])))
            (sorted_history_error lib (coalesce (field row ''lead_history'') (Arr [])))
      | Cdr \<Rightarrow> None
      | _ \<Rightarrow>
          first_error (queue_history_error lib (coalesce (field row ''queue_history'') (Arr [])))
            (sorted_history_error lib (coalesce (field row ''agent_history'') (Arr []))))"

subsection \<open>normalizeRow\<close>

text \<open>The Called Time of a CDR: a number is seconds below 1e12, and becomes an ISO string.\<close>

definition cdr_time :: "platform \<Rightarrow> jsval \<Rightarrow> error + jsval" where
  "cdr_time lib ts =
     (case ts of
        Num n \<Rightarrow>
          (case to_iso lib (if n < 1000000000000 then n * 1000 else n) of
             None \<Rightarrow> Inl RangeError
           | Some s \<Rightarrow> Inr (Str s))
      | _ \<Rightarrow> Inr ts)"

text \<open>
  \<open>normalizeRow\<close>: the properties of the returned object are evaluated in order, the
  history columns before \<open>Abandoned\<close>; the first exception ends it.
\<close>

definition normalizeRow :: "platform \<Rightarrow> source \<Rightarrow> row \<Rightarrow> error + crecord" where
  "normalizeRow lib source row =
     (case source of
        Camp \<Rightarrow>
          (case history_columns_error lib Camp row of
             Some e \<Rightarrow> Inl e
           | None \<Rightarrow>
               Inr \<lparr>col_Type = ''Campaign'',
                    col_CallID =
                      coalesce (field row ''call_id'') (coalesce (field row ''callid'') (Str '''')),
                    col_CalledTime =
                      coalesce (field row ''timestamp'') (coalesce (field row ''datetime'') (Str '''')),
                    col_Abandoned = ''''\<rparr>)
      | Cdr \<Rightarrow>
          (case cdr_time lib
                  (coalesce (field row ''timestamp'') (coalesce (field row ''datetime'') (Str ''''))) of
             Inl e \<Rightarrow> Inl e
           | Inr ts \<Rightarrow>
               Inr \<lparr>col_Type = ''CDR'',
                    col_CallID = coalesce (field row ''call_id'') (Str ''''),
                    col_CalledTime = ts,
                    col_Abandoned = ''''\<rparr>)
      | Out \<Rightarrow>
          (case history_columns_error lib Out row of
             Some e \<Rightarrow> Inl e
           | None \<Rightarrow>
               Inr \<lparr>col_Type = ''Outbound'',
                    col_CallID =
                      coalesce (field row ''call_id'') (coalesce (field row ''callid'') (Str '''')),
                    col_CalledTime = coalesce (field row ''called_time'') (Str ''''),
                    col_Abandoned = ''''\<rparr>)
      | In \<Rightarrow>
          (case history_columns_error lib In row of
             Some e \<Rightarrow> Inl e
           | None \<Rightarrow>
               (case computeAbandoned lib row of
                  Inl e \<Rightarrow> Inl e
                | Inr abandoned \<Rightarrow>
                    Inr \<lparr>col_Type = ''Inbound'',
                         col_CallID =
                           coalesce (field row ''call_id'') (coalesce (field row ''callid'') (Str '''')),
                         col_CalledTime = coalesce (field row ''called_time'') (Str ''''),
                         col_Abandoned = abandoned\<rparr>)))"

subsection \<open>dedupRecords and revealNextBatch\<close>

definition PAGE_SIZE :: int where
  "PAGE_SIZE = 500"

definition SERVER_PAGE_SIZE :: int where
  "SERVER_PAGE_SIZE = 500"

text \<open>
  \<open>dedupRecords\<close>: the first record of each key, in order. The key of a record with a
  falsy Call ID is a fresh \<open>Symbol()\<close>, equal to no other key.
\<close>

fun dedup_from :: "jsval list \<Rightarrow> crecord list \<Rightarrow> crecord list" where
  "dedup_from seen [] = []"
| "dedup_from seen (rec # list) =
     (if \<not> truthy (col_CallID rec) then rec # dedup_from seen list
      else if \<not> seen_has seen (col_CallID rec) then
        rec # dedup_from (seen @ [col_CallID rec]) list
      else dedup_from seen list)"

definition dedupRecords :: "crecord list \<Rightarrow> crecord list" where
  "dedupRecords list = dedup_from [] list"

text \<open>
  The pick of one loop pass: over the four buffers in order, the head with the strictly
  greatest event time so far.
\<close>

fun pick_newest ::
  "platform \<Rightarrow> (source \<Rightarrow> crecord list) \<Rightarrow> source list \<Rightarrow> (source \<times> crecord) option
     \<Rightarrow> (source \<times> crecord) option" where
  "pick_newest lib buffers [] pick = pick"
| "pick_newest lib buffers (k # ks) pick =
     (case buffers k of
        [] \<Rightarrow> pick_newest lib buffers ks pick
      | candidate # _ \<Rightarrow>
          (if pick = None \<or> toEpoch lib candidate > toEpoch lib (snd (the pick))
           then pick_newest lib buffers ks (Some (k, candidate))
           else pick_newest lib buffers ks pick))"

definition buffered :: "(source \<Rightarrow> crecord list) \<Rightarrow> nat" where
  "buffered buffers = length (buffers In) + length (buffers Out) + length (buffers Camp) + length (buffers Cdr)"

text \<open>
  The \<open>while\<close> loop of \<open>revealNextBatch\<close>. The picked buffer is never empty; were it
  empty, \<open>shift()\<close> would give \<open>undefined\<close>, which the model does not represent, and
  the loop is modelled to stop.
\<close>

function reveal_loop ::
  "platform \<Rightarrow> int \<Rightarrow> (source \<Rightarrow> crecord list) \<Rightarrow> crecord list
     \<Rightarrow> (source \<Rightarrow> crecord list) \<times> crecord list" where
  "reveal_loop lib startLen buffers lastRecords =
     (if int (length lastRecords) - startLen < PAGE_SIZE then
        (case pick_newest lib buffers sources None of
           None \<Rightarrow> (buffers, lastRecords)
         | Some (pickKey, pickRec) \<Rightarrow>
             (case buffers pickKey of
                [] \<Rightarrow> (buffers, lastRecords)
              | shifted # rest \<Rightarrow>
                  reveal_loop lib startLen (buffers(pickKey := rest))
                    (dedupRecords (lastRecords @ [shifted]))))
      else (buffers, lastRecords))"
  by pat_completeness auto
termination
proof (relation "measure (\<lambda>(lib, startLen, buffers, lastRecords). buffered buffers)")
  show "wf (measure (\<lambda>(lib, startLen, buffers, lastRecords). buffered buffers))"
    by simp
next
  fix lib :: platform and startLen :: int and buffers :: "source \<Rightarrow> crecord list"
    and lastRecords :: "crecord list" and x2 :: "source \<times> crecord" and x y
    and x21 :: crecord and x22 :: "crecord list"
  assume "buffers x = x21 # x22"
  then show "((lib, startLen, buffers(x := x22), dedupRecords (lastRecords @ [x21])),
              lib, startLen, buffers, lastRecords)
             \<in> measure (\<lambda>(lib, startLen, buffers, lastRecords). buffered buffers)"
    by (cases x) (simp_all add: buffered_def)
qed

declare reveal_loop.simps [simp del]

text \<open>The state of the page: the paging tokens, the buffers and the revealed records.\<close>

record base_query =
  bq_account :: jsval
  bq_start :: jsval
  bq_end :: jsval

record cstate =
  nextTokens :: "source \<Rightarrow> jsval"
  buffers :: "source \<Rightarrow> crecord list"
  lastRecords :: "crecord list"
  baseQuery :: base_query

definition revealNextBatch :: "platform \<Rightarrow> cstate \<Rightarrow> cstate" where
  "revealNextBatch lib st =
     (case reveal_loop lib (int (length (lastRecords st))) (buffers st) (lastRecords st) of
        (buffers', lastRecords') \<Rightarrow>
          st\<lparr>buffers := buffers', lastRecords := sort_newest lib lastRecords'\<rparr>)"

subsection \<open>Requests to the report endpoint\<close>

text \<open>
  A request of the page: the endpoint and the query parameters (\<open>Undefined\<close> when the
  parameter is not sent). Its answer: the promise is rejected with a message, or
  resolves to a body with its rows (\<open>[]\<close> when \<open>data\<close> is absent) and its \<open>next\<close>.
\<close>

record request =
  rq_endpoint :: string
  rq_account :: jsval
  rq_start :: jsval
  rq_end :: jsval
  rq_limit :: int
  rq_startKey :: jsval

datatype http_result = Rejected string | Resolved "row list" jsval

definition endpoint_of :: "source \<Rightarrow> string" where
  "endpoint_of k =
     (case k of
        In \<Rightarrow> ''/api/reports/queueCalls''
      | Out \<Rightarrow> ''/api/reports/queueOutboundCalls''
      | Camp \<Rightarrow> ''/api/reports/campaignsActivity''
      | Cdr \<Rightarrow> ''/api/reports/cdrs'')"

text \<open>\<open>{ ...baseQuery, limit: SERVER_PAGE_SIZE, ...(nxt && { startKey: nxt }) }\<close>\<close>

definition cursor_request :: "cstate \<Rightarrow> source \<Rightarrow> request" where
  "cursor_request st k =
     \<lparr>rq_endpoint = endpoint_of k,
      rq_account = bq_account (baseQuery st), rq_start = bq_start (baseQuery st),
      rq_end = bq_end (baseQuery st), rq_limit = SERVER_PAGE_SIZE,
      rq_startKey = (if truthy (nextTokens st k) then nextTokens st k else Undefined)\<rparr>"

text \<open>\<open>{ ...baseQuery, end: newEndIso, limit: SERVER_PAGE_SIZE }\<close>\<close>

definition window_request :: "cstate \<Rightarrow> jsval \<Rightarrow> source \<Rightarrow> request" where
  "window_request st newEnd k =
     \<lparr>rq_endpoint = endpoint_of k,
      rq_account = bq_account (baseQuery st), rq_start = bq_start (baseQuery st),
      rq_end = newEnd, rq_limit = SERVER_PAGE_SIZE, rq_startKey = Undefined\<rparr>"

definition rejections :: "(source \<Rightarrow> http_result) \<Rightarrow> source list \<Rightarrow> error list" where
  "rejections answers ks =
     concat (map (\<lambda>k. case answers k of Rejected msg \<Rightarrow> [UpstreamError msg] | Resolved rows nxt \<Rightarrow> []) ks)"

definition rows_of :: "http_result \<Rightarrow> row list" where
  "rows_of r = (case r of Rejected msg \<Rightarrow> [] | Resolved rows nxt \<Rightarrow> rows)"

definition next_of :: "http_result \<Rightarrow> jsval" where
  "next_of r = (case r of Rejected msg \<Rightarrow> Undefined | Resolved rows nxt \<Rightarrow> nxt)"

subsection \<open>loadNextChunks\<close>

text \<open>
  \<open>fetchChunk\<close> for one source, with the callback of its promise: nothing is sent when the
  token is \<open>null\<close>; a resolved answer sets the token, then normalizes the rows, appends
  them to the buffer and sorts it. The triple threads the state, the requests sent and
  the reasons of the promises that were rejected (by the transport, or by an exception
  in the callback). The four callbacks touch different keys, so their order is immaterial.
\<close>

definition fetch_chunk ::
  "platform \<Rightarrow> cstate \<Rightarrow> (source \<Rightarrow> http_result) \<Rightarrow> source
     \<Rightarrow> cstate \<times> request list \<times> error list \<Rightarrow> cstate \<times> request list \<times> error list" where
  "fetch_chunk lib st0 answers k acc =
     (case acc of (st, sent, failed) \<Rightarrow>
        (if nextTokens st0 k = Null then (st, sent, failed)
         else
           (case answers k of
              Rejected msg \<Rightarrow> (st, sent @ [cursor_request st0 k], failed @ [UpstreamError msg])
            | Resolved rows nxt \<Rightarrow>
                (let st1 = st\<lparr>nextTokens := (nextTokens st)(k := coalesce nxt Null)\<rparr>
                 in case mapE (normalizeRow lib k) rows of
                      Inl e \<Rightarrow> (st1, sent @ [cursor_request st0 k], failed @ [e])
                    | Inr normalized \<Rightarrow>
                        (st1\<lparr>buffers := (buffers st1)
                               (k := sort_newest lib (buffers st1 k @ normalized))\<rparr>,
                         sent @ [cursor_request st0 k], failed)))))"

definition noMoreTokens :: "cstate \<Rightarrow> bool" where
  "noMoreTokens st = list_all (\<lambda>k. nextTokens st k = Null) sources"

text \<open>The \<open>reduce\<close> over the revealed records: the least event time, \<open>null\<close> for none.\<close>

definition oldest_epoch :: "platform \<Rightarrow> crecord list \<Rightarrow> int option" where
  "oldest_epoch lib records =
     fold (\<lambda>r min. let ts = toEpoch lib r in if min = None \<or> ts < the min then Some ts else min)
       records None"

definition oldestMs :: "int \<Rightarrow> int" where
  "oldestMs oldest = (if oldest < 1000000000000 then oldest * 1000 else oldest)"

text \<open>
  The \<open>forEach\<close> over the four answers of the time-window round: an answer without rows is
  skipped; the rows of the others are normalized, appended and sorted. An exception in
  \<open>normalizeRow\<close> ends it, with the buffers filled so far.
\<close>

fun window_fill ::
  "platform \<Rightarrow> (source \<Rightarrow> http_result) \<Rightarrow> source list \<Rightarrow> cstate \<Rightarrow> cstate \<times> error list" where
  "window_fill lib answers [] st = (st, [])"
| "window_fill lib answers (k # ks) st =
     (if rows_of (answers k) = [] then window_fill lib answers ks st
      else
        (case mapE (normalizeRow lib k) (rows_of (answers k)) of
           Inl e \<Rightarrow> (st, [e])
         | Inr norm \<Rightarrow>
             window_fill lib answers ks
               (st\<lparr>buffers := (buffers st)(k := sort_newest lib (buffers st k @ norm))\<rparr>)))"

text \<open>
  What a call of \<open>loadNextChunks\<close> leaves: the state, the requests of the cursor round and
  of the time-window round, and the reasons of the rejected promises. The call itself is
  rejected when there is such a reason (with the first to arrive), and then it has not
  reached \<open>revealNextBatch\<close>.
\<close>

record loaded =
  ld_state :: cstate
  ld_cursor :: "request list"
  ld_window :: "request list"
  ld_failed :: "error list"

definition loadNextChunks ::
  "platform \<Rightarrow> (source \<Rightarrow> http_result) \<Rightarrow> (source \<Rightarrow> http_result) \<Rightarrow> cstate \<Rightarrow> loaded" where
  "loadNextChunks lib cursor_answers window_answers st =
     (case fold (fetch_chunk lib st cursor_answers) sources (st, [], []) of
        (st1, sent, failed) \<Rightarrow>
          (if failed \<noteq> [] then
             \<lparr>ld_state = st1, ld_cursor = sent, ld_window = [], ld_failed = failed\<rparr>
           else if noMoreTokens st1 \<and> oldest_epoch lib (lastRecords st1) \<noteq> None
                   \<and> oldest_epoch lib (lastRecords st1) \<noteq> Some 0 then
             (case to_iso lib (oldestMs (the (oldest_epoch lib (lastRecords st1))) - 1000) of
                None \<Rightarrow>
                  \<lparr>ld_state = st1, ld_cursor = sent, ld_window = [], ld_failed = [RangeError]\<rparr>
              | Some newEndIso \<Rightarrow>
                  (if rejections window_answers sources \<noteq> [] then
                     \<lparr>ld_state = st1, ld_cursor = sent,
                      ld_window = map (window_request st1 (Str newEndIso)) sources,
                      ld_failed = rejections window_answers sources\<rparr>
                   else
                     (case window_fill lib window_answers sources st1 of
                        (st2, failed2) \<Rightarrow>
                          \<lparr>ld_state = (if failed2 = [] then revealNextBatch lib st2 else st2),
                           ld_cursor = sent,
                           ld_window = map (window_request st1 (Str newEndIso)) sources,
                           ld_failed = failed2\<rparr>)))
           else
             \<lparr>ld_state = revealNextBatch lib st1, ld_cursor = sent, ld_window = [],
              ld_failed = []\<rparr>))"

subsection \<open>The submit handler\<close>

text \<open>
  \<open>buffers.in = ...; buffers.out = ...\<close>: the four assignments in order, each replacing a
  buffer by the normalized rows of its answer; an exception ends them.
\<close>

fun assign_buffers ::
  "platform \<Rightarrow> (source \<Rightarrow> http_result) \<Rightarrow> source list \<Rightarrow> cstate \<Rightarrow> cstate \<times> error list" where
  "assign_buffers lib answers [] st = (st, [])"
| "assign_buffers lib answers (k # ks) st =
     (case mapE (normalizeRow lib k) (rows_of (answers k)) of
        Inl e \<Rightarrow> (st, [e])
      | Inr norm \<Rightarrow> assign_buffers lib answers ks (st\<lparr>buffers := (buffers st)(k := norm)\<rparr>))"

text \<open>
  What a submit leaves: the state, the four first-page requests, and the reasons caught
  by its \<open>catch\<close>, of which the first to arrive is shown in the error box.
\<close>

record submitted =
  sb_state :: cstate
  sb_requests :: "request list"
  sb_failed :: "error list"

definition submit ::
  "platform \<Rightarrow> string \<Rightarrow> string \<Rightarrow> string \<Rightarrow> (source \<Rightarrow> http_result) \<Rightarrow> cstate \<Rightarrow> submitted" where
  "submit lib account start end' answers st =
     (let st0 = st\<lparr>baseQuery := \<lparr>bq_account = Str account, bq_start = Str start, bq_end = Str end'\<rparr>\<rparr>;
          firstRequests = map (window_request st0 (Str end')) sources
      in if rejections answers sources \<noteq> [] then
           \<lparr>sb_state = st0, sb_requests = firstRequests, sb_failed = rejections answers sources\<rparr>
         else
           (case assign_buffers lib answers sources
                   (st0\<lparr>nextTokens := (\<lambda>k. coalesce (next_of (answers k)) Null)\<rparr>) of
              (st1, failed) \<Rightarrow>
                \<lparr>sb_state = (if failed = [] then revealNextBatch lib (st1\<lparr>lastRecords := []\<rparr>) else st1),
                 sb_requests = firstRequests, sb_failed = failed\<rparr>))"

text \<open>The globals of the page when it is loaded.\<close>

definition init_state :: cstate where
  "init_state =
     \<lparr>nextTokens = (\<lambda>k. Null), buffers = (\<lambda>k. []), lastRecords = [],
      baseQuery = \<lparr>bq_account = Undefined, bq_start = Undefined, bq_end = Undefined\<rparr>\<rparr>"

section \<open>Vocabulary of the statements\<close>





text \<open>
  Stand-ins for the examples: a handler that answers every request alike, a phone-number
  library that always throws, and the subtraction on numbers.
\<close>

definition answer :: "response \<Rightarrow> jsval \<Rightarrow> response" where
  "answer r key = r"

definition never_parses :: "string \<Rightarrow> parse_result" where
  "never_parses s = ParseThrows"

definition num_minus :: "jsval \<Rightarrow> jsval \<Rightarrow> jsval" where
  "num_minus a b = (case (a, b) of (Num x, Num y) \<Rightarrow> Num (x - y) | _ \<Rightarrow> Undefined)"




text \<open>
  Rows and parameters of the examples: a raw row with a call id, the same row as the
  \<open>cdrs\<close> report returns it, and a query for a window that starts at 1700000000.
\<close>

definition call_row :: "string \<Rightarrow> row" where
  "call_row c = [(''call_id'', Str c)]"

definition cdr_row :: "string \<Rightarrow> row" where
  "cdr_row c = [(''call_id'', Str c), (''Extension'', Str ''''), (''Country'', Str '''')]"

definition demo_params :: "int option \<Rightarrow> jsval \<Rightarrow> params" where
  "demo_params m k = \<lparr>startDate = Some 1700000000, endDate = None, start_key = k, maxRows = m\<rparr>"

definition demo_cache :: "int \<Rightarrow> row list \<Rightarrow> cache" where
  "demo_cache t rows = [''cdrs|acme|1700000000|'' \<mapsto> \<lparr>c_expires = t, c_data = rows\<rparr>]"

text \<open>
  A platform and a query of the examples: every date string parses to 1700000000000 ms,
  a time prints as its milliseconds in decimal, no string is JSON; the query asks for the
  page after the token \<open>k2\<close>; \<open>served_row\<close> is a \<open>cdrs\<close> row as the endpoint sends it.
\<close>

definition demo_lib :: platform where
  "demo_lib = \<lparr>date_parse = (\<lambda>s. Some 1700000000000), json_parse = (\<lambda>s. None),
                to_number = (\<lambda>v. None), to_iso = (\<lambda>n. Some (show_int n))\<rparr>"



text \<open>
  Call ids that identify a call: truthy primitives (a non-empty string, a non-zero
  number). A list of records has no repeat when no such id occurs twice in it; it is
  newest first when no record is followed by one with a greater event time.
\<close>

definition keyed :: "jsval \<Rightarrow> bool" where
  "keyed i = (truthy i \<and> primitive i)"

definition call_ids :: "crecord list \<Rightarrow> jsval list" where
  "call_ids records = filter keyed (map col_CallID records)"

definition no_repeat :: "crecord list \<Rightarrow> bool" where
  "no_repeat records = distinct (call_ids records)"

definition newest_first :: "platform \<Rightarrow> crecord list \<Rightarrow> bool" where
  "newest_first lib records = sorted_wrt (\<lambda>a b. toEpoch lib b \<le> toEpoch lib a) records"

text \<open>The answers of the four sources, in the order in, out, camp, cdr.\<close>

definition answers_of ::
  "http_result \<Rightarrow> http_result \<Rightarrow> http_result \<Rightarrow> http_result \<Rightarrow> source \<Rightarrow> http_result" where
  "answers_of a b c d k = (case k of In \<Rightarrow> a | Out \<Rightarrow> b | Camp \<Rightarrow> c | Cdr \<Rightarrow> d)"

text \<open>Both invariants of the revealed records.\<close>

definition revealed_ok :: "platform \<Rightarrow> crecord list \<Rightarrow> bool" where
  "revealed_ok lib records = (newest_first lib records \<and> no_repeat records)"















text \<open>The digits of a string, in order: what is left when everything else is removed.\<close>

definition digits_of :: "string \<Rightarrow> string" where
  "digits_of s = filter (\<lambda>c. c \<in> set ''0123456789'') s"


section \<open>Properties\<close>

text \<open>
  C9, as amended. The country derivation answers \<open>UAE\<close> for \<open>0568334181\<close> and for
  \<open>971501234567\<close>, and the empty string for every input whose cleaned string has length
  at most 4, such as \<open>1234\<close>, whatever the phone-number library would say. The cleaned
  string is \<open>cleanNumber\<close>: the digits and the plus signs of the input, with the leading
  zeros stripped unless it starts with a plus sign. So the answer is empty for every
  input that has at most 4 digits and no plus sign, but an input with a plus sign and
  at most 4 digits can be classified: \<open>+9715\<close> gives \<open>UAE\<close> and \<open>+2012\<close> gives
  \<open>Egypt\<close>.
\<close>

theorem country_heuristic:
  "extractCountryFromPhoneNumber pp (Str ''0568334181'') = ''UAE'' \<and>
   extractCountryFromPhoneNumber pp (Str ''971501234567'') = ''UAE'' \<and>
   extractCountryFromPhoneNumber pp (Str ''1234'') = '''' \<and>
   (\<forall>s. length (cleanNumber s) \<le> 4 \<longrightarrow> extractCountryFromPhoneNumber pp (Str s) = '''') \<and>
   (\<forall>s. CHR ''+'' \<notin> set s \<and> length (digits_of s) \<le> 4 \<longrightarrow>
        extractCountryFromPhoneNumber pp (Str s) = '''') \<and>
   extractCountryFromPhoneNumber pp (Str ''+9715'') = ''UAE'' \<and>
   extractCountryFromPhoneNumber pp (Str ''+2012'') = ''Egypt''"
proof (intro conjI allI impI)
  fix s
  assume a: "CHR ''+'' \<notin> set s \<and> length (digits_of s) \<le> 4"
  then have "filter digit_or_plus s = digits_of s"
    unfolding digits_of_def digit_or_plus_def by (intro filter_cong) auto
  then have "length (cleanNumber s) \<le> length (digits_of s)"
    by (simp add: cleanNumber_def Let_def length_dropWhile_le)
  with a have "length (cleanNumber s) \<le> 4" by simp
  then show "extractCountryFromPhoneNumber pp (Str s) = ''''"
    by (simp add: classify_def)
qed (simp_all add: classify_def cleanNumber_def digit_or_plus_def starts_with_def)

theorem country_heuristic_witness:
  "length (cleanNumber ''00-12 34'') \<le> 4 \<and>
   extractCountryFromPhoneNumber (\<lambda>_. Parsed (Some ''AE'')) (Str ''00-12 34'') = '''' \<and>
   CHR ''+'' \<notin> set ''ext. 97-15'' \<and> length (digits_of ''ext. 97-15'') \<le> 4 \<and>
   extractCountryFromPhoneNumber (\<lambda>_. Parsed (Some ''AE'')) (Str ''ext. 97-15'') = ''''"
proof -
  note T = country_heuristic [of "\<lambda>_. Parsed (Some ''AE'')"]
  have a: "length (cleanNumber ''00-12 34'') \<le> 4"
    by (simp add: cleanNumber_def digit_or_plus_def starts_with_def)
  have b: "CHR ''+'' \<notin> set ''ext. 97-15'' \<and> length (digits_of ''ext. 97-15'') \<le> 4"
    by (simp add: digits_of_def)
  from T [THEN conjunct2, THEN conjunct2, THEN conjunct2, THEN conjunct1, rule_format, OF a]
    T [THEN conjunct2, THEN conjunct2, THEN conjunct2, THEN conjunct2, THEN conjunct1,
       rule_format, OF b] a b
  show ?thesis by simp
qed

text \<open>
  The claim as stated fails for an input with a plus sign: \<open>+9715\<close> and \<open>+2012\<close> have
  four digits each, and are classified.
\<close>

theorem country_heuristic_counterexample:
  "length (digits_of ''+9715'') \<le> 4 \<and>
   extractCountryFromPhoneNumber never_parses (Str ''+9715'') = ''UAE'' \<and>
   length (digits_of ''+2012'') \<le> 4 \<and>
   extractCountryFromPhoneNumber never_parses (Str ''+2012'') = ''Egypt''"
  by (simp add: digits_of_def classify_def cleanNumber_def digit_or_plus_def starts_with_def)

section \<open>The fetch loop and its retries\<close>




lemma retry_loop_last:
  "retry_loop 2 d m pkey s sk nk out slept log =
     (case fetch_pages m pkey s sk nk out log of
        Starved \<Rightarrow> None
      | Broke o1 n1 l1 r1 \<Rightarrow> Some (Fetched o1 n1 slept l1)
      | Threw e1 sk1 nk1 l1 r1 \<Rightarrow> Some (Raised e1 slept l1))"
  by (subst retry_loop.simps) (simp add: MAX_RETRIES_def split: attempt.split)

lemma retry_loop_second:
  "retry_loop (Suc 0) d m pkey s sk nk out slept log =
     (case fetch_pages m pkey s sk nk out log of
        Starved \<Rightarrow> None
      | Broke o1 n1 l1 r1 \<Rightarrow> Some (Fetched o1 n1 slept l1)
      | Threw e1 sk1 nk1 l1 r1 \<Rightarrow> retry_loop 2 (d * 2) m pkey r1 sk1 nk1 out (slept @ [d]) l1)"
  by (subst retry_loop.simps) (simp add: MAX_RETRIES_def numeral_2_eq_2 split: attempt.split)

lemma retry_loop_first:
  "retry_loop 0 d m pkey s sk nk out slept log =
     (case fetch_pages m pkey s sk nk out log of
        Starved \<Rightarrow> None
      | Broke o1 n1 l1 r1 \<Rightarrow> Some (Fetched o1 n1 slept l1)
      | Threw e1 sk1 nk1 l1 r1 \<Rightarrow> retry_loop (Suc 0) (d * 2) m pkey r1 sk1 nk1 out (slept @ [d]) l1)"
  by (subst retry_loop.simps) (simp add: MAX_RETRIES_def split: attempt.split)

lemma retry_loop_unfold:
  "retry_loop 0 1000 m pkey s sk nk out [] log =
     (case fetch_pages m pkey s sk nk out log of
        Starved \<Rightarrow> None
      | Broke o1 n1 l1 r1 \<Rightarrow> Some (Fetched o1 n1 [] l1)
      | Threw e1 sk1 nk1 l1 r1 \<Rightarrow>
          (case fetch_pages m pkey r1 sk1 nk1 out l1 of
             Starved \<Rightarrow> None
           | Broke o2 n2 l2 r2 \<Rightarrow> Some (Fetched o2 n2 [1000] l2)
           | Threw e2 sk2 nk2 l2 r2 \<Rightarrow>
               (case fetch_pages m pkey r2 sk2 nk2 out l2 of
                  Starved \<Rightarrow> None
                | Broke o3 n3 l3 r3 \<Rightarrow> Some (Fetched o3 n3 [1000, 2000] l3)
                | Threw e3 sk3 nk3 l3 r3 \<Rightarrow> Some (Raised e3 [1000, 2000] l3))))"
  by (simp add: retry_loop_first retry_loop_second retry_loop_last split: attempt.split)
























section \<open>Runs of the retry loop on a given script\<close>









section \<open>The query cache\<close>






section \<open>The revealed records\<close>

lemma seen_has_iff: "seen_has seen v \<longleftrightarrow> v \<in> set seen \<and> primitive v"
  by (induction seen) (auto simp: seen_has_def same_value_def)

lemma dedup_from_ids:
  "distinct (call_ids (dedup_from seen xs)) \<and> set (call_ids (dedup_from seen xs)) \<inter> set seen = {}"
proof (induction xs arbitrary: seen)
  case Nil
  show ?case by (simp add: call_ids_def)
next
  case (Cons rec list)
  show ?case
  proof (cases "truthy (col_CallID rec)")
    case False
    with Cons.IH [of seen] show ?thesis by (simp add: call_ids_def keyed_def)
  next
    case True
    show ?thesis
    proof (cases "seen_has seen (col_CallID rec)")
      case True
      with \<open>truthy (col_CallID rec)\<close> Cons.IH [of seen] show ?thesis by simp
    next
      case False
      with \<open>truthy (col_CallID rec)\<close> Cons.IH [of "seen @ [col_CallID rec]"] show ?thesis
        by (auto simp: call_ids_def keyed_def seen_has_iff)
    qed
  qed
qed

lemma dedup_from_unkeyed:
  "filter (\<lambda>r. \<not> keyed (col_CallID r)) (dedup_from seen xs) =
   filter (\<lambda>r. \<not> keyed (col_CallID r)) xs"
  by (induction xs arbitrary: seen) (auto simp: keyed_def seen_has_iff)

lemma dedupRecords_no_repeat: "no_repeat (dedupRecords xs)"
  using dedup_from_ids [of "[]" xs] by (simp add: no_repeat_def dedupRecords_def)

lemma call_ids_insort_set:
  "set (call_ids (insort_key f x xs)) = set (call_ids (x # xs))"
  by (auto simp: call_ids_def set_insort_key)

lemma call_ids_insort_distinct:
  "distinct (call_ids (insort_key f x xs)) = distinct (call_ids (x # xs))"
proof (induction xs)
  case Nil
  show ?case by simp
next
  case (Cons y ys)
  show ?case
  proof (cases "f x \<le> f y")
    case True
    then show ?thesis by simp
  next
    case False
    have s: "set (call_ids (insort_key f x ys)) = set (call_ids (x # ys))"
      by (rule call_ids_insort_set)
    from False have "distinct (call_ids (insort_key f x (y # ys))) =
        distinct (call_ids (y # insort_key f x ys))" by simp
    also have "\<dots> = distinct (call_ids (x # y # ys))"
      using Cons.IH s by (auto simp: call_ids_def)
    finally show ?thesis .
  qed
qed

lemma call_ids_sort:
  "set (call_ids (sort_key f xs)) = set (call_ids xs) \<and>
   distinct (call_ids (sort_key f xs)) = distinct (call_ids xs)"
proof (induction xs)
  case Nil
  show ?case by simp
next
  case (Cons x xs)
  have "set (call_ids (sort_key f (x # xs))) = set (call_ids (x # sort_key f xs))"
    by (simp add: call_ids_insort_set)
  moreover have "distinct (call_ids (sort_key f (x # xs))) = distinct (call_ids (x # sort_key f xs))"
    by (simp add: call_ids_insort_distinct)
  ultimately show ?case using Cons.IH by (auto simp: call_ids_def)
qed

lemma sort_newest_no_repeat: "no_repeat (sort_newest lib xs) = no_repeat xs"
  by (simp add: no_repeat_def sort_newest_def call_ids_sort)

lemma sort_newest_sorted: "newest_first lib (sort_newest lib xs)"
proof -
  have "sorted (map (\<lambda>rec. - toEpoch lib rec) (sort_key (\<lambda>rec. - toEpoch lib rec) xs))"
    by (rule sorted_sort_key)
  then show ?thesis by (simp add: newest_first_def sort_newest_def sorted_map)
qed

lemma reveal_loop_no_repeat:
  "no_repeat revealed \<Longrightarrow> no_repeat (snd (reveal_loop lib startLen bufs revealed))"
proof (induction lib startLen bufs revealed rule: reveal_loop.induct)
  case (1 lib startLen bufs revealed)
  show ?case
  proof (cases "int (length revealed) - startLen < PAGE_SIZE")
    case False
    with "1.prems" show ?thesis by (simp add: reveal_loop.simps)
  next
    case True
    show ?thesis
    proof (cases "pick_newest lib bufs sources None")
      case None
      with True "1.prems" show ?thesis by (simp add: reveal_loop.simps)
    next
      case (Some p)
      obtain pickKey pickRec where p: "p = (pickKey, pickRec)" by (cases p)
      show ?thesis
      proof (cases "bufs pickKey")
        case Nil
        with True Some p "1.prems" show ?thesis by (simp add: reveal_loop.simps)
      next
        case (Cons shifted rest)
        from "1.IH" [OF True Some p [symmetric] Cons dedupRecords_no_repeat]
        have "no_repeat (snd (reveal_loop lib startLen (bufs(pickKey := rest))
            (dedupRecords (revealed @ [shifted]))))" .
        with True Some p Cons show ?thesis
          by (subst reveal_loop.simps) simp
      qed
    qed
  qed
qed

lemma revealNextBatch_invariant:
  "newest_first lib (lastRecords (revealNextBatch lib st)) \<and>
   (no_repeat (lastRecords st) \<longrightarrow> no_repeat (lastRecords (revealNextBatch lib st)))"
proof -
  obtain b l where r: "reveal_loop lib (int (length (lastRecords st))) (buffers st) (lastRecords st) = (b, l)"
    by (cases "reveal_loop lib (int (length (lastRecords st))) (buffers st) (lastRecords st)")
  then have lr: "lastRecords (revealNextBatch lib st) = sort_newest lib l"
    by (simp add: revealNextBatch_def)
  have "no_repeat (lastRecords st) \<Longrightarrow> no_repeat l"
    using reveal_loop_no_repeat [of "lastRecords st" lib "int (length (lastRecords st))" "buffers st"] r
    by simp
  then show ?thesis by (simp add: lr sort_newest_sorted sort_newest_no_repeat)
qed

lemma fetch_chunk_frame:
  assumes "fetch_chunk lib st0 ans k (st, sent, failed) = (st', sent', failed')"
  shows "lastRecords st' = lastRecords st \<and> set failed \<subseteq> set failed' \<and>
         (nextTokens st0 k \<noteq> Null \<longrightarrow> (\<forall>msg. ans k = Rejected msg \<longrightarrow> UpstreamError msg \<in> set failed'))"
  using assms
  by (auto simp: fetch_chunk_def Let_def split: if_splits http_result.splits sum.splits)

lemma fold_fetch_chunk_frame:
  "fold (fetch_chunk lib st0 ans) ks (st, sent, failed) = (st', sent', failed') \<Longrightarrow>
   lastRecords st' = lastRecords st \<and> set failed \<subseteq> set failed' \<and>
   (\<forall>k\<in>set ks. nextTokens st0 k \<noteq> Null \<longrightarrow>
      (\<forall>msg. ans k = Rejected msg \<longrightarrow> UpstreamError msg \<in> set failed'))"
proof (induction ks arbitrary: st sent failed)
  case Nil
  then show ?case by simp
next
  case (Cons k ks)
  obtain st1 sent1 failed1 where
    one: "fetch_chunk lib st0 ans k (st, sent, failed) = (st1, sent1, failed1)"
    by (cases "fetch_chunk lib st0 ans k (st, sent, failed)")
  with Cons.prems have rest: "fold (fetch_chunk lib st0 ans) ks (st1, sent1, failed1) = (st', sent', failed')"
    by simp
  from fetch_chunk_frame [OF one] Cons.IH [OF rest] show ?case
    by auto
qed


lemma window_fill_frame:
  "window_fill lib ans ks st = (st', failed) \<Longrightarrow> lastRecords st' = lastRecords st"
  by (induction ks arbitrary: st) (auto split: if_splits sum.splits)

lemma assign_buffers_frame:
  "assign_buffers lib ans ks st = (st', failed) \<Longrightarrow> lastRecords st' = lastRecords st"
  by (induction ks arbitrary: st) (auto split: if_splits sum.splits)

lemma loadNextChunks_revealed:
  "(ld_failed (loadNextChunks lib ca wa st) \<noteq> [] \<longrightarrow>
      lastRecords (ld_state (loadNextChunks lib ca wa st)) = lastRecords st) \<and>
   (ld_failed (loadNextChunks lib ca wa st) = [] \<longrightarrow>
      (\<exists>st'. lastRecords st' = lastRecords st \<and>
         ld_state (loadNextChunks lib ca wa st) = revealNextBatch lib st'))"
proof -
  obtain st1 sent failed where
    f: "fold (fetch_chunk lib st ca) sources (st, [], []) = (st1, sent, failed)"
    by (cases "fold (fetch_chunk lib st ca) sources (st, [], [])")
  from fold_fetch_chunk_frame [OF f] have l1: "lastRecords st1 = lastRecords st" by simp
  obtain st2 failed2 where w: "window_fill lib wa sources st1 = (st2, failed2)"
    by (cases "window_fill lib wa sources st1")
  from window_fill_frame [OF w] l1 have l2: "lastRecords st2 = lastRecords st" by simp
  show ?thesis
    using l1 l2 by (auto simp: loadNextChunks_def f w split: option.splits)
qed

lemma submit_revealed:
  "(sb_failed (submit lib a s e ans st) \<noteq> [] \<longrightarrow>
      lastRecords (sb_state (submit lib a s e ans st)) = lastRecords st) \<and>
   (sb_failed (submit lib a s e ans st) = [] \<longrightarrow>
      (\<exists>st'. lastRecords st' = [] \<and> sb_state (submit lib a s e ans st) = revealNextBatch lib st'))"
proof -
  let ?st0 = "st\<lparr>baseQuery := \<lparr>bq_account = Str a, bq_start = Str s, bq_end = Str e\<rparr>,
      nextTokens := (\<lambda>k. coalesce (next_of (ans k)) Null)\<rparr>"
  obtain st1 failed where w: "assign_buffers lib ans sources ?st0 = (st1, failed)"
    by (cases "assign_buffers lib ans sources ?st0")
  from assign_buffers_frame [OF w] have "lastRecords st1 = lastRecords st" by simp
  moreover have "lastRecords (st1\<lparr>lastRecords := []\<rparr>) = []" by simp
  ultimately show ?thesis
    using w by (auto simp: submit_def Let_def intro: exI [of _ "st1\<lparr>lastRecords := []\<rparr>"])
qed

lemma no_repeat_Nil: "revealed_ok lib []"
  by (simp add: revealed_ok_def newest_first_def no_repeat_def call_ids_def)



section \<open>The first leg of an inbound call\<close>




















section \<open>The abandonment flag\<close>
















section \<open>Rounds of requests\<close>











section \<open>Examples of calls\<close>

lemma cdrs_postprocess: "postprocess pp sub ''cdrs'' (map call_row cs) = Inr (map cdr_row cs)"
proof -
  have "mapE (add_extension ''cdrs'') (map call_row cs) =
      Inr (map (\<lambda>c. [(''call_id'', Str c), (''Extension'', Str '''')]) cs)"
    by (induction cs) (simp_all add: add_extension_def extension_of_def call_row_def)
  then show ?thesis
    by (simp add: postprocess_def annotate_def add_country_def country_of_def field_def
        str_or_def cdr_row_def comp_def)
qed

lemma demo_key: "makeCacheKey ''cdrs'' ''acme'' (demo_params m k) = ''cdrs|acme|1700000000|''"
  by (simp add: makeCacheKey_def demo_params_def show_date_def show_int_def show_nat.simps
      digit_char_def)

lemma demo_first_page:
  "fetchReport pp sub Map.empty 0 5000 ''cdrs'' ''acme'' (demo_params (Some 2) Undefined)
        [answer (Page (Str ''k1'') []),
         answer (Page (Str ''k2'') [call_row ''a'', call_row ''b'', call_row ''c''])] =
   Some \<lparr>r_result = Inr (RowsNext [cdr_row ''a'', cdr_row ''b''] (Str ''k2'')),
         r_cache = demo_cache 305000 [cdr_row ''a'', cdr_row ''b''],
         r_slept = [],
         r_log = [(Undefined, Page (Str ''k1'') []),
                  (Str ''k1'', Page (Str ''k2'') [call_row ''a'', call_row ''b'', call_row ''c''])]\<rparr>"
proof -
  have p: "postprocess pp sub ''cdrs'' [call_row ''a'', call_row ''b''] =
      Inr [cdr_row ''a'', cdr_row ''b'']"
    using cdrs_postprocess [of pp sub "[''a'', ''b'']"] by simp
  show ?thesis
    by (simp add: fetchReport_def has_endpoint_def ENDPOINTS_def cache_fresh_def retry_loop_unfold Let_def
        answer_def remaining_rows_def limit_given_def coalesce_def p demo_key demo_cache_def
        CACHE_TTL_def)
       (simp add: demo_params_def remaining_rows_def limit_given_def coalesce_def p CACHE_TTL_def)
qed

lemma demo_cache_hit:
  "t < 305000 \<Longrightarrow>
   fetchReport pp sub (demo_cache 305000 rows) t t' ''cdrs'' ''acme'' (demo_params m k) script =
   Some \<lparr>r_result = Inr (Rows rows), r_cache = demo_cache 305000 rows, r_slept = [], r_log = []\<rparr>"
  by (simp add: fetchReport_def has_endpoint_def ENDPOINTS_def cache_fresh_def demo_key demo_cache_def)




lemma demo_submit_dup:
  "lastRecords (sb_state (submit demo_lib ''acme'' ''s'' ''e''
      (answers_of
         (Resolved [[(''call_id'', Str ''c1''), (''called_time'', Num 1700000002)]] Null)
         (Resolved [[(''call_id'', Str ''c2''), (''called_time'', Num 1700000001)]] Null)
         (Resolved [[(''call_id'', Str ''c1''), (''timestamp'', Num 1700000003)]] Null)
         (Resolved [] Null))
      init_state)) =
   [\<lparr>col_Type = ''Campaign'', col_CallID = Str ''c1'', col_CalledTime = Num 1700000003, col_Abandoned = ''''\<rparr>,
    \<lparr>col_Type = ''Outbound'', col_CallID = Str ''c2'', col_CalledTime = Num 1700000001, col_Abandoned = ''''\<rparr>]"
  apply (simp add: submit_def rejections_def sources_def answers_of_def Let_def rows_of_def
      normalizeRow_def history_columns_error_def first_error_def
      sorted_history_error_def queue_history_error_def computeAbandoned_def field_def coalesce_def init_state_def next_of_def)
  apply (simp add: revealNextBatch_def)
  apply (simp add: reveal_loop.simps PAGE_SIZE_def sources_def toEpoch_def dedupRecords_def
      seen_has_def same_value_def sort_newest_def)
  done







section \<open>Retries and backoff\<close>




section \<open>The row limit\<close>

text \<open>
  C5, evaluated where the code departs from it. On an empty cache a call with limit 1
  keeps one row of a page of two and returns the page's token: a fetch honours the
  limit. But the cache is looked up before the limit is read, and its key has no limit:
  a call with limit 2 stores two rows, and a call for the same window with limit 1,
  made while the entry is fresh, is given both, with no request. The call that carries
  the token \<open>k2\<close> returned by the first call is given the same two rows again: it does
  not resume where the first call stopped.
\<close>

theorem cached_rows_exceed_limit:
  "fetchReport never_parses num_minus Map.empty 0 5000 ''cdrs'' ''acme'' (demo_params (Some 1) Undefined)
        [answer (Page (Str ''k2'') [call_row ''a'', call_row ''b''])] =
     Some \<lparr>r_result = Inr (RowsNext [cdr_row ''a''] (Str ''k2'')),
         r_cache = demo_cache 305000 [cdr_row ''a''],
         r_slept = [],
         r_log = [(Undefined, Page (Str ''k2'') [call_row ''a'', call_row ''b''])]\<rparr> \<and>
   fetchReport never_parses num_minus Map.empty 0 5000 ''cdrs'' ''acme'' (demo_params (Some 2) Undefined)
        [answer (Page (Str ''k1'') []),
         answer (Page (Str ''k2'') [call_row ''a'', call_row ''b'', call_row ''c''])] =
     Some \<lparr>r_result = Inr (RowsNext [cdr_row ''a'', cdr_row ''b''] (Str ''k2'')),
         r_cache = demo_cache 305000 [cdr_row ''a'', cdr_row ''b''],
         r_slept = [],
         r_log = [(Undefined, Page (Str ''k1'') []),
                  (Str ''k1'', Page (Str ''k2'') [call_row ''a'', call_row ''b'', call_row ''c''])]\<rparr> \<and>
   fetchReport never_parses num_minus (demo_cache 305000 [cdr_row ''a'', cdr_row ''b'']) 6000 6000
        ''cdrs'' ''acme'' (demo_params (Some 1) Undefined) [answer (Page Null [call_row ''d''])] =
     Some \<lparr>r_result = Inr (Rows [cdr_row ''a'', cdr_row ''b'']),
         r_cache = demo_cache 305000 [cdr_row ''a'', cdr_row ''b''],
         r_slept = [], r_log = []\<rparr> \<and>
   \<not> int (length [cdr_row ''a'', cdr_row ''b'']) \<le> 1 \<and>
   fetchReport never_parses num_minus (demo_cache 305000 [cdr_row ''a'', cdr_row ''b'']) 6000 6000
        ''cdrs'' ''acme'' (demo_params (Some 1) (Str ''k2'')) [answer (Page Null [call_row ''d''])] =
     Some \<lparr>r_result = Inr (Rows [cdr_row ''a'', cdr_row ''b'']),
         r_cache = demo_cache 305000 [cdr_row ''a'', cdr_row ''b''],
         r_slept = [], r_log = []\<rparr>"
proof -
  have p: "postprocess never_parses num_minus ''cdrs'' [call_row ''a''] = Inr [cdr_row ''a'']"
    using cdrs_postprocess [of never_parses num_minus "[''a'']"] by simp
  have "fetchReport never_parses num_minus Map.empty 0 5000 ''cdrs'' ''acme'' (demo_params (Some 1) Undefined)
        [answer (Page (Str ''k2'') [call_row ''a'', call_row ''b''])] =
     Some \<lparr>r_result = Inr (RowsNext [cdr_row ''a''] (Str ''k2'')),
         r_cache = demo_cache 305000 [cdr_row ''a''],
         r_slept = [],
         r_log = [(Undefined, Page (Str ''k2'') [call_row ''a'', call_row ''b''])]\<rparr>"
    by (simp add: fetchReport_def has_endpoint_def ENDPOINTS_def cache_fresh_def retry_loop_unfold Let_def
        answer_def remaining_rows_def limit_given_def coalesce_def p demo_key demo_cache_def
        CACHE_TTL_def)
       (simp add: demo_params_def remaining_rows_def limit_given_def coalesce_def p CACHE_TTL_def)
  with demo_first_page [of never_parses num_minus]
    demo_cache_hit [of 6000 never_parses num_minus "[cdr_row ''a'', cdr_row ''b'']" 6000 "Some 1" Undefined]
    demo_cache_hit [of 6000 never_parses num_minus "[cdr_row ''a'', cdr_row ''b'']" 6000 "Some 1" "Str ''k2''"]
  show ?thesis by simp
qed




text \<open>
  C2, evaluated where the code departs from it. The cache key leaves the continuation
  cursor out, and the cache is read and written by every call. A first-page call returns
  two rows and the token \<open>k2\<close>; the call for the next page, carrying \<open>k2\<close>, made while
  the entry is fresh, gets the same two rows back as a bare array and makes no request.
  And on an empty cache the call carrying \<open>k2\<close> stores its page, which a later call
  without a cursor is then served as if it were the first page.
\<close>

theorem cursor_fetch_meets_cache:
  "fetchReport never_parses num_minus Map.empty 0 5000 ''cdrs'' ''acme'' (demo_params (Some 2) Undefined)
        [answer (Page (Str ''k1'') []),
         answer (Page (Str ''k2'') [call_row ''a'', call_row ''b'', call_row ''c''])] =
     Some \<lparr>r_result = Inr (RowsNext [cdr_row ''a'', cdr_row ''b''] (Str ''k2'')),
         r_cache = demo_cache 305000 [cdr_row ''a'', cdr_row ''b''],
         r_slept = [],
         r_log = [(Undefined, Page (Str ''k1'') []),
                  (Str ''k1'', Page (Str ''k2'') [call_row ''a'', call_row ''b'', call_row ''c''])]\<rparr> \<and>
   fetchReport never_parses num_minus (demo_cache 305000 [cdr_row ''a'', cdr_row ''b'']) 6000 6000
        ''cdrs'' ''acme'' (demo_params (Some 2) (Str ''k2'')) [answer (Page Null [call_row ''d''])] =
     Some \<lparr>r_result = Inr (Rows [cdr_row ''a'', cdr_row ''b'']),
         r_cache = demo_cache 305000 [cdr_row ''a'', cdr_row ''b''], r_slept = [], r_log = []\<rparr> \<and>
   fetchReport never_parses num_minus Map.empty 0 5000 ''cdrs'' ''acme'' (demo_params (Some 2) (Str ''k2''))
        [answer (Page Null [call_row ''d''])] =
     Some \<lparr>r_result = Inr (RowsNext [cdr_row ''d''] Null),
         r_cache = demo_cache 305000 [cdr_row ''d''],
         r_slept = [], r_log = [(Str ''k2'', Page Null [call_row ''d''])]\<rparr> \<and>
   fetchReport never_parses num_minus (demo_cache 305000 [cdr_row ''d'']) 6000 6000
        ''cdrs'' ''acme'' (demo_params (Some 2) Undefined)
        [answer (Page (Str ''k1'') []),
         answer (Page (Str ''k2'') [call_row ''a'', call_row ''b'', call_row ''c''])] =
     Some \<lparr>r_result = Inr (Rows [cdr_row ''d'']),
         r_cache = demo_cache 305000 [cdr_row ''d''], r_slept = [], r_log = []\<rparr>"
proof -
  have p: "postprocess never_parses num_minus ''cdrs'' [call_row ''d''] = Inr [cdr_row ''d'']"
    using cdrs_postprocess [of never_parses num_minus "[''d'']"] by simp
  have "fetchReport never_parses num_minus Map.empty 0 5000 ''cdrs'' ''acme'' (demo_params (Some 2) (Str ''k2''))
        [answer (Page Null [call_row ''d''])] =
     Some \<lparr>r_result = Inr (RowsNext [cdr_row ''d''] Null),
         r_cache = demo_cache 305000 [cdr_row ''d''],
         r_slept = [], r_log = [(Str ''k2'', Page Null [call_row ''d''])]\<rparr>"
    by (simp add: fetchReport_def has_endpoint_def ENDPOINTS_def cache_fresh_def retry_loop_unfold Let_def
        answer_def remaining_rows_def limit_given_def coalesce_def p demo_key demo_cache_def
        CACHE_TTL_def)
       (simp add: demo_params_def remaining_rows_def limit_given_def coalesce_def p CACHE_TTL_def)
  with demo_first_page [of never_parses num_minus]
    demo_cache_hit [of 6000 never_parses num_minus "[cdr_row ''a'', cdr_row ''b'']" 6000 "Some 2" "Str ''k2''"]
    demo_cache_hit [of 6000 never_parses num_minus "[cdr_row ''d'']" 6000 "Some 2" Undefined]
  show ?thesis by simp
qed

section \<open>Order and identity of the revealed records\<close>

text \<open>
  C4, as amended. The revealed sequence starts empty; after every reveal step it is
  sorted newest first (no record is followed by one with a greater event time), and no
  call id that is a truthy primitive (a non-empty string, a non-zero number, \<open>true\<close>)
  occurs twice in it, however the buffers were filled (cursor pages or time-window
  rounds). Both hold after a submit and after a call of \<open>loadNextChunks\<close>, failed or not,
  when they held before. When every revealed record has such an id, the set of ids has
  as many elements as the sequence has records. A record whose Call ID is falsy (the
  empty string of a row without \<open>call_id\<close>, 0, \<open>null\<close>) or not a primitive is never
  taken for a duplicate: \<open>dedupRecords\<close>, the one step that drops records, keeps every
  such record.
\<close>

theorem revealed_sorted_without_repeats:
  "revealed_ok lib (lastRecords init_state) \<and>
   newest_first lib (lastRecords (revealNextBatch lib st)) \<and>
   (no_repeat (lastRecords st) \<longrightarrow> no_repeat (lastRecords (revealNextBatch lib st))) \<and>
   (revealed_ok lib (lastRecords st) \<longrightarrow>
      revealed_ok lib (lastRecords (sb_state (submit lib account start end' answers st))) \<and>
      revealed_ok lib (lastRecords (ld_state (loadNextChunks lib cursor_answers window_answers st)))) \<and>
   (\<forall>records. no_repeat records \<and> list_all (\<lambda>r. keyed (col_CallID r)) records \<longrightarrow>
      card (set (map col_CallID records)) = length records) \<and>
   (\<forall>records.
      filter (\<lambda>r. \<not> keyed (col_CallID r)) (dedupRecords records) =
      filter (\<lambda>r. \<not> keyed (col_CallID r)) records) \<and>
   (\<forall>i. keyed i = (truthy i \<and> primitive i))"
proof (intro conjI allI impI)
  fix records
  show "filter (\<lambda>r. \<not> keyed (col_CallID r)) (dedupRecords records) =
      filter (\<lambda>r. \<not> keyed (col_CallID r)) records"
    by (simp add: dedupRecords_def dedup_from_unkeyed)
next
  fix i
  show "keyed i = (truthy i \<and> primitive i)" by (simp add: keyed_def)
next
  show "revealed_ok lib (lastRecords init_state)"
    by (simp add: init_state_def no_repeat_Nil)
  show "newest_first lib (lastRecords (revealNextBatch lib st))"
    using revealNextBatch_invariant by blast
next
  assume "no_repeat (lastRecords st)"
  then show "no_repeat (lastRecords (revealNextBatch lib st))"
    using revealNextBatch_invariant by blast
next
  assume ok: "revealed_ok lib (lastRecords st)"
  show "revealed_ok lib (lastRecords (sb_state (submit lib account start end' answers st)))"
  proof (cases "sb_failed (submit lib account start end' answers st) = []")
    case False
    with submit_revealed [of lib account start end' answers st] ok show ?thesis by simp
  next
    case True
    with submit_revealed [of lib account start end' answers st] obtain st' where
      "lastRecords st' = []" "sb_state (submit lib account start end' answers st) = revealNextBatch lib st'"
      by blast
    with revealNextBatch_invariant [of lib st'] show ?thesis
      by (simp add: revealed_ok_def no_repeat_def call_ids_def)
  qed
  show "revealed_ok lib (lastRecords (ld_state (loadNextChunks lib cursor_answers window_answers st)))"
  proof (cases "ld_failed (loadNextChunks lib cursor_answers window_answers st) = []")
    case False
    with loadNextChunks_revealed [of lib cursor_answers window_answers st] ok show ?thesis by simp
  next
    case True
    with loadNextChunks_revealed [of lib cursor_answers window_answers st] obtain st' where
      "lastRecords st' = lastRecords st"
      "ld_state (loadNextChunks lib cursor_answers window_answers st) = revealNextBatch lib st'"
      by blast
    with revealNextBatch_invariant [of lib st'] ok show ?thesis
      by (simp add: revealed_ok_def)
  qed
next
  fix records
  assume a: "no_repeat records \<and> list_all (\<lambda>r. keyed (col_CallID r)) records"
  then have "filter keyed (map col_CallID records) = map col_CallID records"
    by (simp add: list_all_iff)
  with a have "distinct (map col_CallID records)"
    by (simp add: no_repeat_def call_ids_def)
  then show "card (set (map col_CallID records)) = length records"
    using distinct_card by fastforce
qed

theorem revealed_sorted_without_repeats_witness:
  "revealed_ok demo_lib (lastRecords init_state) \<and>
   lastRecords (sb_state (submit demo_lib ''acme'' ''s'' ''e''
      (answers_of
         (Resolved [[(''call_id'', Str ''c1''), (''called_time'', Num 1700000002)]] Null)
         (Resolved [[(''call_id'', Str ''c2''), (''called_time'', Num 1700000001)]] Null)
         (Resolved [[(''call_id'', Str ''c1''), (''timestamp'', Num 1700000003)]] Null)
         (Resolved [] Null))
      init_state)) =
   [\<lparr>col_Type = ''Campaign'', col_CallID = Str ''c1'', col_CalledTime = Num 1700000003, col_Abandoned = ''''\<rparr>,
    \<lparr>col_Type = ''Outbound'', col_CallID = Str ''c2'', col_CalledTime = Num 1700000001, col_Abandoned = ''''\<rparr>] \<and>
   revealed_ok demo_lib
   [\<lparr>col_Type = ''Campaign'', col_CallID = Str ''c1'', col_CalledTime = Num 1700000003, col_Abandoned = ''''\<rparr>,
    \<lparr>col_Type = ''Outbound'', col_CallID = Str ''c2'', col_CalledTime = Num 1700000001, col_Abandoned = ''''\<rparr>] \<and>
   list_all (\<lambda>r. keyed (col_CallID r))
   [\<lparr>col_Type = ''Campaign'', col_CallID = Str ''c1'', col_CalledTime = Num 1700000003, col_Abandoned = ''''\<rparr>,
    \<lparr>col_Type = ''Outbound'', col_CallID = Str ''c2'', col_CalledTime = Num 1700000001, col_Abandoned = ''''\<rparr>] \<and>
   card (set (map col_CallID
   [\<lparr>col_Type = ''Campaign'', col_CallID = Str ''c1'', col_CalledTime = Num 1700000003, col_Abandoned = ''''\<rparr>,
    \<lparr>col_Type = ''Outbound'', col_CallID = Str ''c2'', col_CalledTime = Num 1700000001, col_Abandoned = ''''\<rparr>])) = 2"
proof -
  let ?ans = "answers_of
         (Resolved [[(''call_id'', Str ''c1''), (''called_time'', Num 1700000002)]] Null)
         (Resolved [[(''call_id'', Str ''c2''), (''called_time'', Num 1700000001)]] Null)
         (Resolved [[(''call_id'', Str ''c1''), (''timestamp'', Num 1700000003)]] Null)
         (Resolved [] Null)"
  let ?rs = "[\<lparr>col_Type = ''Campaign'', col_CallID = Str ''c1'', col_CalledTime = Num 1700000003, col_Abandoned = ''''\<rparr>,
    \<lparr>col_Type = ''Outbound'', col_CallID = Str ''c2'', col_CalledTime = Num 1700000001, col_Abandoned = ''''\<rparr>]"
  note T = revealed_sorted_without_repeats [of demo_lib init_state "''acme''" "''s''" "''e''" ?ans]
  from T have i: "revealed_ok demo_lib (lastRecords init_state)" by blast
  with T have "revealed_ok demo_lib (lastRecords (sb_state (submit demo_lib ''acme'' ''s'' ''e'' ?ans init_state)))"
    by blast
  then have ok: "revealed_ok demo_lib ?rs" by (simp only: demo_submit_dup)
  have k: "list_all (\<lambda>r. keyed (col_CallID r)) ?rs" by (simp add: keyed_def)
  from ok have "no_repeat ?rs" by (simp only: revealed_ok_def)
  with k T have "card (set (map col_CallID ?rs)) = length ?rs" by blast
  then have "card (set (map col_CallID ?rs)) = 2" by simp
  with i ok k demo_submit_dup show ?thesis by blast
qed


text \<open>
  The claim as stated fails for records without a call id: an inbound row and a campaign
  row that carry none are both revealed, with the same empty Call ID, so the set of ids
  has one element and the sequence two. The same happens to two rows whose \<open>call_id\<close>
  is the number 0.
\<close>

theorem revealed_ids_counterexample:
  "lastRecords (sb_state (submit demo_lib ''acme'' ''s'' ''e''
      (answers_of (Resolved [[(''called_time'', Num 1700000002)]] Null) (Resolved [] Null)
                  (Resolved [[(''timestamp'', Num 1700000001)]] Null) (Resolved [] Null))
      init_state)) =
   [\<lparr>col_Type = ''Inbound'', col_CallID = Str '''', col_CalledTime = Num 1700000002, col_Abandoned = ''YES''\<rparr>,
    \<lparr>col_Type = ''Campaign'', col_CallID = Str '''', col_CalledTime = Num 1700000001, col_Abandoned = ''''\<rparr>] \<and>
   card (set (map col_CallID
   [\<lparr>col_Type = ''Inbound'', col_CallID = Str '''', col_CalledTime = Num 1700000002, col_Abandoned = ''YES''\<rparr>,
    \<lparr>col_Type = ''Campaign'', col_CallID = Str '''', col_CalledTime = Num 1700000001, col_Abandoned = ''''\<rparr>])) = 1 \<and>
   length
   [\<lparr>col_Type = ''Inbound'', col_CallID = Str '''', col_CalledTime = Num 1700000002, col_Abandoned = ''YES''\<rparr>,
    \<lparr>col_Type = ''Campaign'', col_CallID = Str '''', col_CalledTime = Num 1700000001, col_Abandoned = ''''\<rparr>] = 2 \<and>
   lastRecords (sb_state (submit demo_lib ''acme'' ''s'' ''e''
      (answers_of (Resolved [[(''call_id'', Num 0), (''called_time'', Num 1700000002)]] Null)
                  (Resolved [] Null)
                  (Resolved [[(''call_id'', Num 0), (''timestamp'', Num 1700000001)]] Null)
                  (Resolved [] Null))
      init_state)) =
   [\<lparr>col_Type = ''Inbound'', col_CallID = Num 0, col_CalledTime = Num 1700000002, col_Abandoned = ''YES''\<rparr>,
    \<lparr>col_Type = ''Campaign'', col_CallID = Num 0, col_CalledTime = Num 1700000001, col_Abandoned = ''''\<rparr>]"
  apply (simp add: submit_def rejections_def sources_def answers_of_def Let_def rows_of_def
      normalizeRow_def history_columns_error_def first_error_def
      sorted_history_error_def queue_history_error_def computeAbandoned_def field_def
      coalesce_def init_state_def next_of_def)
  apply (simp add: revealNextBatch_def)
  apply (simp add: reveal_loop.simps PAGE_SIZE_def sources_def toEpoch_def dedupRecords_def
      seen_has_def same_value_def sort_newest_def)
  done

section \<open>A failing source\<close>







section \<open>The time-window round\<close>





section \<open>One row for each inbound call\<close>








section \<open>The derived abandonment flag\<close>





end
